theory Spec2Isabelle
  imports Complex_Main
begin

section \<open>Data model of Source/Scene/Primitive.js\<close>

text \<open>
  JavaScript numbers are carried around, never computed with, so they are reals here.
  Objects that the Primitive mutates through several references (the per-instance
  attribute records and the vertex-array attributes delivered by the combine task) live
  in two heaps indexed by addresses. A private field \<^verbatim>\<open>_x\<close> of the source is
  the record field \<open>u_x\<close>, \<^verbatim>\<open>show\<close> is \<open>p_show\<close>.
\<close>

type_synonym number = real
type_synonym addr = nat
type_synonym ref = nat
type_synonym instanceId = string
type_synonym matrix4 = "number list"

datatype PrimitiveState = READY | COMBINING | COMBINED | COMPLETE | FAILED

datatype SceneMode = SCENE2D | COLUMBUS_VIEW | SCENE3D | MORPHING

datatype error = DeveloperError string | TypeError | RangeError

datatype outcome = Returned | Threw error

datatype BufferUsage = STATIC_DRAW | DYNAMIC_DRAW

text \<open>A value handed to an attribute setter: \<^verbatim>\<open>undefined\<close>, \<^verbatim>\<open>null\<close>, a value
  without a \<^verbatim>\<open>length\<close> property, or an array-like of numbers.\<close>

datatype jsvalue = Undefined | Null | NoLength | ArrayLike "number list"

record componentDatatype =
  sizeInBytes :: nat
  toElement :: "number \<Rightarrow> number"

record projection =
  ellipsoid :: nat
  isGeographic :: bool

text \<open>The sphere arithmetic of BoundingSphere is outside this file; its results are kept
  as terms over the spheres of the combined geometry.\<close>

datatype boundingSphere =
    Sphere number number number number
  | ProjectTo2D boundingSphere projection
  | CenterX0 boundingSphere
  | Union boundingSphere boundingSphere

record geometryAttribute =
  ga_componentDatatype :: componentDatatype
  ga_componentsPerAttribute :: nat
  ga_normalize :: bool
  ga_values :: "number list"

record geometry =
  g_attributes :: "(string \<times> geometryAttribute option) list"
  g_indices :: "nat list option"
  g_primitiveType :: nat
  g_boundingSphere :: "boundingSphere option"

record geometryInstanceAttribute =
  gia_componentDatatype :: componentDatatype
  gia_componentsPerAttribute :: nat
  gia_normalize :: bool
  gia_value :: "number list"

record geometryInstance =
  gi_geometry :: geometry
  gi_modelMatrix :: matrix4
  gi_id :: "instanceId option"
  gi_attributes :: "(string \<times> geometryInstanceAttribute) list"

datatype instances = Single geometryInstance | Array "geometryInstance list"

text \<open>Shader text rewriting is kept as terms as well: each constructor stands for one of
  the source-to-source functions of the file (the text they produce is read only by the
  shader compiler, which is outside this file).\<close>

datatype shaderSource =
    Source string
  | ColumbusView bool shaderSource
  | AppendShow shaderSource
  | PickVertex shaderSource
  | PickFragment shaderSource

record material =
  mat_ref :: ref
  mat_uniforms :: nat

record appearance =
  ap_ref :: ref
  ap_material :: "material option"
  ap_renderState :: nat
  ap_vertexShaderSource :: shaderSource
  ap_fragmentShaderSource :: shaderSource

record shaderProgram =
  sp_vertexShaderSource :: shaderSource
  sp_fragmentShaderSource :: shaderSource
  sp_vertexAttributes :: "string list"

datatype pickOwner = OwnerId instanceId | OwnerPrimitive

record pickId =
  pid_object :: pickOwner
  pid_color :: nat

text \<open>One range of a per-instance attribute inside a merged vertex buffer.\<close>

record range =
  r_offset :: nat
  r_count :: nat
  r_attribute :: addr

record attribute =
  a_value :: "number list"
  a_indices :: "range list"
  a_dirty :: bool

record vaAttribute =
  va_componentDatatype :: componentDatatype
  va_componentsPerAttribute :: nat
  va_values :: "number list option"
  va_vertexBuffer :: "nat option"

type_synonym perInstanceObject = "(string \<times> addr) list"

record perInstanceAttributes =
  pia_ids :: "instanceId option list option"
  pia_indices :: "perInstanceObject list option"

record drawCommand =
  dc_primitiveType :: nat
  dc_vertexArray :: nat
  dc_renderState :: "nat option"
  dc_shaderProgram :: "shaderProgram option"
  dc_uniformMap :: "nat option"
  dc_modelMatrix :: "matrix4 option"
  dc_boundingVolume :: "boundingSphere option"

record commandLists =
  colorList :: "drawCommand list"
  pickList :: "drawCommand list"

record passes =
  color :: bool
  pick :: bool

record scene2D =
  s2d_projection :: projection

record frameState =
  mode :: SceneMode
  fs_passes :: passes
  fs_scene2D :: scene2D

record options =
  o_geometryInstances :: "instances option"
  o_appearance :: "appearance option"
  o_vertexCacheOptimize :: "bool option"
  o_releaseGeometryInstances :: "bool option"
  o_allow3DOnly :: "bool option"

record primitive =
  geometryInstances :: "instances option"
  appearance :: "appearance option"
  u_appearance :: "ref option"
  u_material :: "ref option"
  modelMatrix :: matrix4
  p_show :: bool
  state :: PrimitiveState
  u_geometries :: "geometry list option"
  u_geomtries :: "geometry list option"
  u_vaAttributes :: "addr list list option"
  u_vertexCacheOptimize :: bool
  u_releaseGeometryInstances :: bool
  u_allow3DOnly :: bool
  u_boundingSphere :: "boundingSphere option"
  u_boundingSphere2D :: "boundingSphere option"
  u_perInstanceAttributes :: "perInstanceAttributes option"
  u_lastPerInstanceAttributeIndex :: nat
  u_dirtyAttributes :: "addr list"
  u_va :: "nat list"
  u_attributeIndices :: "(string \<times> nat) list option"
  u_rs :: "nat option"
  u_sp :: "shaderProgram option"
  u_pickSP :: "shaderProgram option"
  u_pickIds :: "pickId list"
  u_commandLists :: commandLists

text \<open>The combine request and its answer.\<close>

record task =
  t_task :: string
  t_instances :: "geometryInstance list"
  t_pickIds :: "nat list"
  t_ellipsoid :: nat
  t_isGeographic :: bool
  t_elementIndexUintSupported :: bool
  t_allow3DOnly :: bool
  t_vertexCacheOptimize :: bool
  t_modelMatrix :: matrix4

record combineResult =
  r_geometries :: "geometry list option"
  r_attributeIndices :: "(string \<times> nat) list option"
  r_vaAttributes :: "addr list list option"
  r_vaAttributeIndices :: "perInstanceAttributes option"
  r_modelMatrix :: "matrix4 option"

text \<open>
  Modelled from the spec: the render context and the task processor are external
  collaborators (spec sections 1 and 6) whose code is not in Primitive.js. The context is
  the log of what it was asked to create, a handle being the position in the log; the
  active vertex attributes of a linked program are a function of its two sources. The
  task processor either takes a request and returns a promise, or returns
  \<^verbatim>\<open>undefined\<close>.
\<close>

record vertexArrayRequest =
  var_geometry :: geometry
  var_attributeIndices :: "(string \<times> nat) list option"
  var_vertexArrayAttributes :: "addr list"

record renderContext =
  ctx_pickObjects :: "pickOwner list"
  ctx_vertexBuffers :: "(number list option \<times> BufferUsage) list"
  ctx_vertexArrays :: "vertexArrayRequest list"
  ctx_renderStates :: "nat list"
  ctx_shaderPrograms :: "shaderProgram list"
  ctx_bufferWrites :: "(nat \<times> nat \<times> number list) list"
  ctx_activeAttributes :: "shaderSource \<Rightarrow> shaderSource \<Rightarrow> string list"
  ctx_elementIndexUint :: bool

record taskProcessor =
  tp_accepts :: bool
  tp_scheduled :: "task list"

text \<open>Everything a call can read or change: the context, the task processor, the
  promises on which the primitive's callbacks are registered, the two heaps, the primitive
  and the caller's command list.\<close>

record world =
  ctx :: renderContext
  taskProcessor :: taskProcessor
  registered :: "nat list"
  attributeHeap :: "addr \<Rightarrow> attribute"
  vaAttributeHeap :: "addr \<Rightarrow> vaAttribute"
  prim :: primitive
  commandList :: "commandLists list"

section \<open>The constructor\<close>

definition defaultValue :: "'a option \<Rightarrow> 'a \<Rightarrow> 'a" where
  "defaultValue a b = (case a of None \<Rightarrow> b | Some x \<Rightarrow> x)"

definition Matrix4_IDENTITY :: matrix4 where
  "Matrix4_IDENTITY = [1, 0, 0, 0, 0, 1, 0, 0, 0, 0, 1, 0, 0, 0, 0, 1]"

definition Primitive :: "options \<Rightarrow> primitive" where
  "Primitive opts =
     \<lparr> geometryInstances = o_geometryInstances opts,
       appearance = o_appearance opts,
       u_appearance = None,
       u_material = None,
       modelMatrix = Matrix4_IDENTITY,
       p_show = True,
       state = READY,
       u_geometries = None,
       u_geomtries = None,
       u_vaAttributes = None,
       u_vertexCacheOptimize = defaultValue (o_vertexCacheOptimize opts) True,
       u_releaseGeometryInstances = defaultValue (o_releaseGeometryInstances opts) True,
       u_allow3DOnly = defaultValue (o_allow3DOnly opts) False,
       u_boundingSphere = None,
       u_boundingSphere2D = None,
       u_perInstanceAttributes = Some \<lparr> pia_ids = None, pia_indices = None \<rparr>,
       u_lastPerInstanceAttributeIndex = 0,
       u_dirtyAttributes = [],
       u_va = [],
       u_attributeIndices = None,
       u_rs = None,
       u_sp = None,
       u_pickSP = None,
       u_pickIds = [],
       u_commandLists = \<lparr> colorList = [], pickList = [] \<rparr> \<rparr>"

section \<open>Per-instance attribute lookup and the accessors\<close>

text \<open>The accessor object: the property names that were defined on it and the
  per-instance object its get and set closures captured.\<close>

record accessor =
  acc_names :: "string list"
  acc_target :: perInstanceObject

text \<open>The search loop of getGeometryInstanceAttributes, from loop counter \<open>i\<close>.\<close>

function findIndex :: "instanceId \<Rightarrow> instanceId option list \<Rightarrow> nat \<Rightarrow> nat \<Rightarrow> nat \<Rightarrow> nat option" where
  "findIndex ident ids lastIndex len i =
     (if i < len then
        (if ids ! ((lastIndex + i) mod len) = Some ident
         then Some ((lastIndex + i) mod len)
         else findIndex ident ids lastIndex len (Suc i))
      else None)"
  by pat_completeness auto
termination
  by (relation "measure (\<lambda>(ident, ids, lastIndex, len, i). len - i)") auto

declare findIndex.simps [simp del]

definition getGeometryInstanceAttributes ::
  "instanceId option \<Rightarrow> primitive \<Rightarrow> (error + accessor option) \<times> primitive" where
  "getGeometryInstanceAttributes ident p =
     (case ident of
        None \<Rightarrow> (Inl (DeveloperError ''id is required''), p)
      | Some i \<Rightarrow>
         (case u_perInstanceAttributes p of
            None \<Rightarrow> (Inl (DeveloperError
                ''must call update before calling getGeometryInstanceAttributes''), p)
          | Some t \<Rightarrow>
             (case pia_ids t of
                None \<Rightarrow> (Inl TypeError, p)
              | Some ids \<Rightarrow>
                 (case findIndex i ids (u_lastPerInstanceAttributeIndex p) (length ids) 0 of
                    None \<Rightarrow> (Inr None, p)
                  | Some index \<Rightarrow>
                     (case pia_indices t of
                        None \<Rightarrow> (Inl TypeError, p)
                      | Some inds \<Rightarrow>
                         (let perInstanceAttributes =
                                (if index < length inds then inds ! index else [])
                          in (Inr (Some \<lparr> acc_names = map fst perInstanceAttributes,
                                           acc_target = perInstanceAttributes \<rparr>),
                              p\<lparr> u_lastPerInstanceAttributeIndex := index \<rparr>)))))))"

definition createGetFunction :: "string \<Rightarrow> perInstanceObject \<Rightarrow> world \<Rightarrow> error + number list" where
  "createGetFunction name perInstanceAttributes w =
     (case map_of perInstanceAttributes name of
        None \<Rightarrow> Inl TypeError
      | Some a \<Rightarrow> Inr (a_value (attributeHeap w a)))"

definition lengthError :: error where
  "lengthError = DeveloperError ''value must be and array with length between 1 and 4.''"

text \<open>The closure returned by createSetFunction, applied to a value. Its dirty list is
  the primitive's \<open>u_dirtyAttributes\<close> array, which is never reassigned.\<close>

definition createSetFunction :: "string \<Rightarrow> perInstanceObject \<Rightarrow> jsvalue \<Rightarrow> world \<Rightarrow> outcome \<times> world" where
  "createSetFunction name perInstanceAttributes v w =
     (case v of
        Undefined \<Rightarrow> (Threw lengthError, w)
      | Null \<Rightarrow> (Threw TypeError, w)
      | NoLength \<Rightarrow> (Threw lengthError, w)
      | ArrayLike xs \<Rightarrow>
         (if length xs < 1 \<or> length xs > 4 then (Threw lengthError, w)
          else
            (case map_of perInstanceAttributes name of
               None \<Rightarrow> (Threw TypeError, w)
             | Some a \<Rightarrow>
                (let h = (attributeHeap w)(a := (attributeHeap w a)\<lparr> a_value := xs \<rparr>)
                 in if \<not> a_dirty (attributeHeap w a)
                    then (Returned,
                          w\<lparr> attributeHeap := h(a := (h a)\<lparr> a_dirty := True \<rparr>),
                             prim := (prim w)\<lparr> u_dirtyAttributes :=
                                        u_dirtyAttributes (prim w) @ [a] \<rparr> \<rparr>)
                    else (Returned, w\<lparr> attributeHeap := h \<rparr>)))))"

section \<open>validateShaderMatching\<close>

text \<open>The attribute layout is a plain object from attribute names to slot numbers; the
  association list holds its own properties. The code asks for a name with
  \<^verbatim>\<open>typeof attributeIndices[name] === 'undefined'\<close>, and a property read goes up the
  prototype chain: besides its own properties, a plain object has those of
  \<^verbatim>\<open>Object.prototype\<close>, none of which is \<^verbatim>\<open>undefined\<close>. These are the names the
  language standard gives it, and the legacy ones that every browser adds.\<close>

definition Object_prototype :: "string list" where
  "Object_prototype =
     [''constructor'', ''toString'', ''toLocaleString'', ''valueOf'', ''hasOwnProperty'',
      ''isPrototypeOf'', ''propertyIsEnumerable'', ''__proto__'', ''__defineGetter__'',
      ''__defineSetter__'', ''__lookupGetter__'', ''__lookupSetter__'']"

text \<open>\<^verbatim>\<open>typeof object[name] !== 'undefined'\<close> on a plain object.\<close>

definition definedProperty :: "(string \<times> nat) list \<Rightarrow> string \<Rightarrow> bool" where
  "definedProperty object name =
     (map_of object name \<noteq> None \<or> name \<in> set Object_prototype)"

text \<open>The loop visits the active attributes of the program in the order in which the
  program reports them.\<close>

fun validateNames :: "string list \<Rightarrow> (string \<times> nat) list \<Rightarrow> error + unit" where
  "validateNames [] attributeIndices = Inr ()"
| "validateNames (name # names) attributeIndices =
     (if \<not> definedProperty attributeIndices name
      then Inl (DeveloperError (''Appearance/Geometry mismatch.  The appearance requires vertex shader attribute input '' @ name))
      else validateNames names attributeIndices)"

definition validateShaderMatching :: "shaderProgram \<Rightarrow> (string \<times> nat) list option \<Rightarrow> error + unit" where
  "validateShaderMatching shaderProgram attributeIndices =
     (case sp_vertexAttributes shaderProgram of
        [] \<Rightarrow> Inr ()
      | names \<Rightarrow>
         (case attributeIndices of
            None \<Rightarrow> Inl TypeError
          | Some ai \<Rightarrow> validateNames names ai))"

section \<open>update: the READY branch\<close>

datatype flow = Proceed | Exit outcome

definition cloneAttribute :: "geometryAttribute \<Rightarrow> geometryAttribute" where
  "cloneAttribute attribute =
     \<lparr> ga_componentDatatype = ga_componentDatatype attribute,
       ga_componentsPerAttribute = ga_componentsPerAttribute attribute,
       ga_normalize = ga_normalize attribute,
       ga_values = ga_values attribute \<rparr>"

definition cloneGeometry :: "geometry \<Rightarrow> geometry" where
  "cloneGeometry g =
     \<lparr> g_attributes = [(property, Some (cloneAttribute a)). (property, Some a) \<leftarrow> g_attributes g],
       g_indices = g_indices g,
       g_primitiveType = g_primitiveType g,
       g_boundingSphere = g_boundingSphere g \<rparr>"

definition cloneGeometryInstanceAttribute :: "geometryInstanceAttribute \<Rightarrow> geometryInstanceAttribute" where
  "cloneGeometryInstanceAttribute attribute =
     \<lparr> gia_componentDatatype = gia_componentDatatype attribute,
       gia_componentsPerAttribute = gia_componentsPerAttribute attribute,
       gia_normalize = gia_normalize attribute,
       gia_value = gia_value attribute \<rparr>"

definition cloneInstance :: "geometryInstance \<Rightarrow> geometryInstance" where
  "cloneInstance instance =
     \<lparr> gi_geometry = cloneGeometry (gi_geometry instance),
       gi_modelMatrix = gi_modelMatrix instance,
       gi_id = gi_id instance,
       gi_attributes = map (\<lambda>(property, a). (property, cloneGeometryInstanceAttribute a))
                          (gi_attributes instance) \<rparr>"

text \<open>Modelled from the spec: \<^verbatim>\<open>context.createPickId\<close> is not in Primitive.js. It
  registers the object and returns a pick id with a colour of its own, here the number of
  the registration.\<close>

definition createPickId :: "pickOwner \<Rightarrow> renderContext \<Rightarrow> pickId \<times> renderContext" where
  "createPickId object c =
     (\<lparr> pid_object = object, pid_color = length (ctx_pickObjects c) \<rparr>,
      c\<lparr> ctx_pickObjects := ctx_pickObjects c @ [object] \<rparr>)"

text \<open>The loop that creates one pick id per cloned instance; \<open>OwnerPrimitive\<close> is
  \<^verbatim>\<open>this\<close>, the default of an instance without id.\<close>

definition pickObject :: "geometryInstance \<Rightarrow> pickOwner" where
  "pickObject inst = defaultValue (map_option OwnerId (gi_id inst)) OwnerPrimitive"

fun createPickIds :: "geometryInstance list \<Rightarrow> nat list \<Rightarrow> world \<Rightarrow> nat list \<times> world" where
  "createPickIds [] pickColors w = (pickColors, w)"
| "createPickIds (inst # insts) pickColors w =
     (let (pickId, c) = createPickId (pickObject inst) (ctx w)
      in createPickIds insts (pickColors @ [pid_color pickId])
           (w\<lparr> ctx := c,
               prim := (prim w)\<lparr> u_pickIds := u_pickIds (prim w) @ [pickId] \<rparr> \<rparr>))"

text \<open>Modelled from the spec: \<^verbatim>\<open>taskProcessor.scheduleTask\<close> is not in Primitive.js.
  It returns a promise, here the number of the request, or \<^verbatim>\<open>undefined\<close> when it
  does not take the request; which of the two is the field \<open>tp_accepts\<close>.\<close>

definition scheduleTask :: "task \<Rightarrow> taskProcessor \<Rightarrow> nat option \<times> taskProcessor" where
  "scheduleTask t tp =
     (if tp_accepts tp
      then (Some (length (tp_scheduled tp)), tp\<lparr> tp_scheduled := tp_scheduled tp @ [t] \<rparr>)
      else (None, tp))"

text \<open>The list of transferable buffers passed along with the request is not represented:
  the Primitive never reads it again.\<close>

definition instanceArray :: "instances \<Rightarrow> geometryInstance list" where
  "instanceArray gi = (case gi of Array xs \<Rightarrow> xs | Single x \<Rightarrow> [x])"

definition readyBranch :: "frameState \<Rightarrow> world \<Rightarrow> flow \<times> world" where
  "readyBranch fs w =
     (case geometryInstances (prim w) of
        None \<Rightarrow> (Exit (Threw TypeError), w)
      | Some gi \<Rightarrow>
         (let instances = instanceArray gi;
              insts = map cloneInstance instances;
              (pickColors, w1) = createPickIds insts [] w;
              projection = s2d_projection (fs_scene2D fs);
              (promise, tp) = scheduleTask
                 \<lparr> t_task = ''combineGeometry'',
                   t_instances = insts,
                   t_pickIds = pickColors,
                   t_ellipsoid = ellipsoid projection,
                   t_isGeographic = isGeographic projection,
                   t_elementIndexUintSupported = ctx_elementIndexUint (ctx w1),
                   t_allow3DOnly = u_allow3DOnly (prim w1),
                   t_vertexCacheOptimize = u_vertexCacheOptimize (prim w1),
                   t_modelMatrix = modelMatrix (prim w1) \<rparr> (taskProcessor w1)
          in (case promise of
                None \<Rightarrow> (Exit Returned, w1\<lparr> taskProcessor := tp \<rparr>)
              | Some pr \<Rightarrow>
                 (Proceed, w1\<lparr> taskProcessor := tp,
                              registered := registered w1 @ [pr],
                              prim := (prim w1)\<lparr> state := COMBINING \<rparr> \<rparr>))))"

text \<open>The two callbacks registered on the promise.\<close>

definition combineSucceeded :: "combineResult \<Rightarrow> primitive \<Rightarrow> primitive" where
  "combineSucceeded result that =
     that\<lparr> u_geometries := r_geometries result,
           u_attributeIndices := r_attributeIndices result,
           u_vaAttributes := r_vaAttributes result,
           u_perInstanceAttributes := r_vaAttributeIndices result,
           modelMatrix := (case r_modelMatrix result of None \<Rightarrow> modelMatrix that
                           | Some m \<Rightarrow> m),
           state := COMBINED \<rparr>"

definition combineFailed :: "primitive \<Rightarrow> primitive" where
  "combineFailed that = that\<lparr> state := FAILED \<rparr>"

section \<open>update: the COMBINED branch\<close>

text \<open>Modelled from the spec: the two context functions that create vertex buffers and
  vertex arrays are not in Primitive.js; each logs its request and returns a handle.\<close>

definition createVertexBuffer :: "number list option \<Rightarrow> BufferUsage \<Rightarrow> renderContext \<Rightarrow> nat \<times> renderContext" where
  "createVertexBuffer values usage c =
     (length (ctx_vertexBuffers c),
      c\<lparr> ctx_vertexBuffers := ctx_vertexBuffers c @ [(values, usage)] \<rparr>)"

definition createVertexArrayFromGeometry :: "vertexArrayRequest \<Rightarrow> renderContext \<Rightarrow> nat \<times> renderContext" where
  "createVertexArrayFromGeometry r c =
     (length (ctx_vertexArrays c), c\<lparr> ctx_vertexArrays := ctx_vertexArrays c @ [r] \<rparr>)"

fun createVertexBuffers :: "addr list \<Rightarrow> world \<Rightarrow> world" where
  "createVertexBuffers [] w = w"
| "createVertexBuffers (a # attributes) w =
     (let attribute = vaAttributeHeap w a;
          (vertexBuffer, c) = createVertexBuffer (va_values attribute) DYNAMIC_DRAW (ctx w)
      in createVertexBuffers attributes
           (w\<lparr> ctx := c,
               vaAttributeHeap := (vaAttributeHeap w)
                 (a := attribute\<lparr> va_vertexBuffer := Some vertexBuffer, va_values := None \<rparr>) \<rparr>))"

text \<open>The loop over the merged geometries, from index \<open>i\<close>, with the array \<open>va\<close>
  built so far. Reading \<^verbatim>\<open>vaAttributes[i].length\<close> is a TypeError when the array is
  missing or too short.\<close>

fun createVertexArrays ::
  "geometry list \<Rightarrow> nat \<Rightarrow> addr list list option \<Rightarrow> nat list \<Rightarrow> world \<Rightarrow> error option \<times> nat list \<times> world" where
  "createVertexArrays [] i vaAttributes va w = (None, va, w)"
| "createVertexArrays (g # gs) i vaAttributes va w =
     (case vaAttributes of
        None \<Rightarrow> (Some TypeError, va, w)
      | Some vas \<Rightarrow>
         (if i < length vas then
            (let attributes = vas ! i;
                 w1 = createVertexBuffers attributes w;
                 (vertexArray, c) = createVertexArrayFromGeometry
                    \<lparr> var_geometry = g,
                      var_attributeIndices = u_attributeIndices (prim w1),
                      var_vertexArrayAttributes = attributes \<rparr> (ctx w1)
             in createVertexArrays gs (Suc i) vaAttributes (va @ [vertexArray])
                  (w1\<lparr> ctx := c \<rparr>))
          else (Some TypeError, va, w)))"

definition newDrawCommand :: "geometry \<Rightarrow> nat \<Rightarrow> drawCommand" where
  "newDrawCommand g vertexArray =
     \<lparr> dc_primitiveType = g_primitiveType g,
       dc_vertexArray = vertexArray,
       dc_renderState = None,
       dc_shaderProgram = None,
       dc_uniformMap = None,
       dc_modelMatrix = None,
       dc_boundingVolume = None \<rparr>"

definition combinedBranch :: "frameState \<Rightarrow> world \<Rightarrow> flow \<times> world" where
  "combinedBranch fs w =
     (case u_geometries (prim w) of
        None \<Rightarrow> (Exit (Threw TypeError), w)
      | Some [] \<Rightarrow> (Exit (Threw TypeError), w)
      | Some (g0 # rest) \<Rightarrow>
         (let geometries = g0 # rest;
              projection = s2d_projection (fs_scene2D fs);
              p1 = (prim w)\<lparr> u_boundingSphere := g_boundingSphere g0 \<rparr>;
              p2 = (case u_boundingSphere p1 of
                      Some bs \<Rightarrow> if \<not> u_allow3DOnly p1
                                 then p1\<lparr> u_boundingSphere2D := Some (ProjectTo2D bs projection) \<rparr>
                                 else p1
                    | None \<Rightarrow> p1)
          in (case createVertexArrays geometries 0 (u_vaAttributes p2) [] (w\<lparr> prim := p2 \<rparr>) of
                (Some e, va, w1) \<Rightarrow> (Exit (Threw e), w1)
              | (None, va, w1) \<Rightarrow>
                 (let p3 = (prim w1)\<lparr> u_va := va \<rparr>;
                      commands = map (\<lambda>(g, v). newDrawCommand g v) (zip geometries va);
                      p4 = p3\<lparr> u_commandLists :=
                               \<lparr> colorList = colorList (u_commandLists p3) @ commands,
                                 pickList = pickList (u_commandLists p3) @ commands \<rparr> \<rparr>;
                      p5 = (if u_releaseGeometryInstances p4
                            then p4\<lparr> geometryInstances := None \<rparr> else p4)
                  in (Proceed, w1\<lparr> prim := p5\<lparr> u_geomtries := None, state := COMPLETE \<rparr> \<rparr>)))))"

section \<open>update: the COMPLETE steady state\<close>

definition createColumbusViewShader :: "primitive \<Rightarrow> shaderSource \<Rightarrow> shaderSource" where
  "createColumbusViewShader primitive vertexShaderSource =
     ColumbusView (u_allow3DOnly primitive) vertexShaderSource"

definition createPickVertexShaderSource :: "shaderSource \<Rightarrow> shaderSource" where
  "createPickVertexShaderSource vertexShaderSource = PickVertex vertexShaderSource"

definition createPickFragmentShaderSource :: "shaderSource \<Rightarrow> shaderSource" where
  "createPickFragmentShaderSource fragmentShaderSource = PickFragment fragmentShaderSource"

definition appendShow :: "primitive \<Rightarrow> shaderSource \<Rightarrow> error + shaderSource" where
  "appendShow primitive vertexShaderSource =
     (case u_attributeIndices primitive of
        None \<Rightarrow> Inl TypeError
      | Some ai \<Rightarrow>
         (if \<not> definedProperty ai ''show'' then Inr vertexShaderSource
          else Inr (AppendShow vertexShaderSource)))"

text \<open>Modelled from the spec: render states and shader programs come from the context and
  its shader cache, which are not in Primitive.js; the active vertex attributes of a
  program are what the context reports for its two sources.\<close>

definition createRenderState :: "nat \<Rightarrow> renderContext \<Rightarrow> nat \<times> renderContext" where
  "createRenderState rs c =
     (length (ctx_renderStates c), c\<lparr> ctx_renderStates := ctx_renderStates c @ [rs] \<rparr>)"

definition replaceShaderProgram ::
  "shaderProgram option \<Rightarrow> shaderSource \<Rightarrow> shaderSource \<Rightarrow> (string \<times> nat) list option
     \<Rightarrow> renderContext \<Rightarrow> shaderProgram \<times> renderContext" where
  "replaceShaderProgram old vs fs attributeIndices c =
     (let sp = \<lparr> sp_vertexShaderSource = vs, sp_fragmentShaderSource = fs,
                 sp_vertexAttributes = ctx_activeAttributes c vs fs \<rparr>
      in (sp, c\<lparr> ctx_shaderPrograms := ctx_shaderPrograms c @ [sp] \<rparr>))"

text \<open>The block guarded by \<^verbatim>\<open>createSP\<close>.\<close>

definition createShaderPrograms :: "appearance \<Rightarrow> world \<Rightarrow> error option \<times> world" where
  "createShaderPrograms ap w =
     (case appendShow (prim w) (createColumbusViewShader (prim w) (ap_vertexShaderSource ap)) of
        Inl e \<Rightarrow> (Some e, w)
      | Inr vs \<Rightarrow>
         (let fs = ap_fragmentShaderSource ap;
              ai = u_attributeIndices (prim w);
              (sp, c1) = replaceShaderProgram (u_sp (prim w)) vs fs ai (ctx w);
              (pickSP, c2) = replaceShaderProgram (u_pickSP (prim w))
                               (createPickVertexShaderSource vs)
                               (createPickFragmentShaderSource fs) ai c1;
              w1 = w\<lparr> ctx := c2, prim := (prim w)\<lparr> u_sp := Some sp, u_pickSP := Some pickSP \<rparr> \<rparr>
          in (case validateShaderMatching sp ai of
                Inl e \<Rightarrow> (Some e, w1)
              | Inr _ \<Rightarrow>
                 (case validateShaderMatching pickSP ai of
                    Inl e \<Rightarrow> (Some e, w1)
                  | Inr _ \<Rightarrow> (None, w1)))))"

text \<open>A loop over the colour commands that also touches the pick command of the same
  index: \<open>f\<close> is what happens to the colour command before the pick command is read,
  \<open>f'\<close> all that happens to it, \<open>g\<close> what happens to the pick command. A missing pick
  command is a TypeError.\<close>

fun updateCommands ::
  "(drawCommand \<Rightarrow> drawCommand) \<Rightarrow> (drawCommand \<Rightarrow> drawCommand) \<Rightarrow> (drawCommand \<Rightarrow> drawCommand)
     \<Rightarrow> drawCommand list \<Rightarrow> drawCommand list \<Rightarrow> error option \<times> drawCommand list \<times> drawCommand list" where
  "updateCommands f f' g [] ps = (None, [], ps)"
| "updateCommands f f' g (c # cs) [] = (Some TypeError, f c # cs, [])"
| "updateCommands f f' g (c # cs) (p # ps) =
     (case updateCommands f f' g cs ps of
        (e, cs', ps') \<Rightarrow> (e, f' c # cs', g p # ps'))"

definition setCommands ::
  "(drawCommand \<Rightarrow> drawCommand) \<Rightarrow> (drawCommand \<Rightarrow> drawCommand) \<Rightarrow> (drawCommand \<Rightarrow> drawCommand)
     \<Rightarrow> world \<Rightarrow> error option \<times> world" where
  "setCommands f f' g w =
     (case updateCommands f f' g (colorList (u_commandLists (prim w)))
                                 (pickList (u_commandLists (prim w))) of
        (e, cs, ps) \<Rightarrow>
          (e, w\<lparr> prim := (prim w)\<lparr> u_commandLists := \<lparr> colorList = cs, pickList = ps \<rparr> \<rparr> \<rparr>))"

text \<open>Render state and shader programs, recreated when the appearance or its material
  is another object than at the last update.\<close>

definition refreshAppearance :: "world \<Rightarrow> error option \<times> world" where
  "refreshAppearance w =
     (case appearance (prim w) of
        None \<Rightarrow> (Some TypeError, w)
      | Some ap \<Rightarrow>
         (let material = ap_material ap;
              p = prim w;
              createRS = (u_appearance p \<noteq> Some (ap_ref ap));
              createSP = (createRS \<or> u_material p \<noteq> map_option mat_ref material);
              p1 = (if createRS
                    then p\<lparr> u_appearance := Some (ap_ref ap),
                            u_material := map_option mat_ref material \<rparr>
                    else if createSP then p\<lparr> u_material := map_option mat_ref material \<rparr>
                    else p);
              w1 = (if createRS
                    then (let (rs, c) = createRenderState (ap_renderState ap) (ctx w)
                          in w\<lparr> ctx := c, prim := p1\<lparr> u_rs := Some rs \<rparr> \<rparr>)
                    else w\<lparr> prim := p1 \<rparr>)
          in (case (if createSP then createShaderPrograms ap w1 else (None, w1)) of
                (Some e, w2) \<Rightarrow> (Some e, w2)
              | (None, w2) \<Rightarrow>
                 (if createRS \<or> createSP then
                    (let uniforms = map_option mat_uniforms material;
                         colour = (\<lambda>c. c\<lparr> dc_renderState := u_rs (prim w2),
                                           dc_shaderProgram := u_sp (prim w2),
                                           dc_uniformMap := uniforms \<rparr>);
                         picking = (\<lambda>c. c\<lparr> dc_renderState := u_rs (prim w2),
                                            dc_shaderProgram := u_pickSP (prim w2),
                                            dc_uniformMap := uniforms \<rparr>)
                     in setCommands colour colour picking w2)
                  else (None, w2)))))"

subsection \<open>The flush of the dirty per-instance attributes\<close>

text \<open>\<^verbatim>\<open>typedArray.set(value, offset)\<close>: a RangeError when the source does not fit behind
  the offset, otherwise the elements are converted and stored. The array itself comes
  from \<^verbatim>\<open>ComponentDatatype.createTypedArray\<close> (not in Primitive.js), taken to return a
  zero-filled typed array of the requested length whose element conversion is
  \<open>toElement\<close>.\<close>

definition typedArraySet :: "(number \<Rightarrow> number) \<Rightarrow> number list \<Rightarrow> number list \<Rightarrow> nat \<Rightarrow> error + number list" where
  "typedArraySet conv typedArray src off =
     (if off + length src > length typedArray then Inl RangeError
      else Inr (take off typedArray @ map conv src @ drop (off + length src) typedArray))"

function fillTypedArray ::
  "(number \<Rightarrow> number) \<Rightarrow> number list \<Rightarrow> number list \<Rightarrow> nat \<Rightarrow> nat \<Rightarrow> nat \<Rightarrow> error + number list" where
  "fillTypedArray conv typedArray v componentsPerAttribute count k =
     (if k < count then
        (case typedArraySet conv typedArray v (k * componentsPerAttribute) of
           Inl e \<Rightarrow> Inl e
         | Inr ta \<Rightarrow> fillTypedArray conv ta v componentsPerAttribute count (Suc k))
      else Inr typedArray)"
  by pat_completeness auto
termination
  by (relation "measure (\<lambda>(conv, typedArray, v, componentsPerAttribute, count, k). count - k)") auto

declare fillTypedArray.simps [simp del]

definition copyFromArrayView :: "nat \<Rightarrow> number list \<Rightarrow> nat \<Rightarrow> renderContext \<Rightarrow> renderContext" where
  "copyFromArrayView vertexBuffer typedArray offsetInBytes c =
     c\<lparr> ctx_bufferWrites := ctx_bufferWrites c @ [(vertexBuffer, offsetInBytes, typedArray)] \<rparr>"

fun flushIndices :: "number list \<Rightarrow> range list \<Rightarrow> world \<Rightarrow> error option \<times> world" where
  "flushIndices v [] w = (None, w)"
| "flushIndices v (index # indices) w =
     (let vaAttribute = vaAttributeHeap w (r_attribute index);
          componentDatatype = va_componentDatatype vaAttribute;
          componentsPerAttribute = va_componentsPerAttribute vaAttribute
      in (case fillTypedArray (toElement componentDatatype)
                 (replicate (r_count index * componentsPerAttribute) 0)
                 v componentsPerAttribute (r_count index) 0 of
            Inl e \<Rightarrow> (Some e, w)
          | Inr typedArray \<Rightarrow>
             (let offsetInBytes = r_offset index * componentsPerAttribute
                                    * sizeInBytes componentDatatype
              in (case va_vertexBuffer vaAttribute of
                    None \<Rightarrow> (Some TypeError, w)
                  | Some vertexBuffer \<Rightarrow>
                      flushIndices v indices
                        (w\<lparr> ctx := copyFromArrayView vertexBuffer typedArray offsetInBytes (ctx w) \<rparr>)))))"

fun flushAttributes :: "addr list \<Rightarrow> world \<Rightarrow> error option \<times> world" where
  "flushAttributes [] w = (None, w)"
| "flushAttributes (a # attributes) w =
     (case flushIndices (a_value (attributeHeap w a)) (a_indices (attributeHeap w a)) w of
        (Some e, w1) \<Rightarrow> (Some e, w1)
      | (None, w1) \<Rightarrow>
          flushAttributes attributes
            (w1\<lparr> attributeHeap := (attributeHeap w1)
                    (a := (attributeHeap w1 a)\<lparr> a_dirty := False \<rparr>) \<rparr>))"

definition flushDirtyAttributes :: "world \<Rightarrow> error option \<times> world" where
  "flushDirtyAttributes w =
     (if length (u_dirtyAttributes (prim w)) > 0 then
        (case flushAttributes (u_dirtyAttributes (prim w)) w of
           (Some e, w1) \<Rightarrow> (Some e, w1)
         | (None, w1) \<Rightarrow> (None, w1\<lparr> prim := (prim w1)\<lparr> u_dirtyAttributes := [] \<rparr> \<rparr>))
      else (None, w))"

subsection \<open>Bounding volume, model matrix and the emitted commands\<close>

definition selectBoundingSphere :: "frameState \<Rightarrow> primitive \<Rightarrow> boundingSphere option" where
  "selectBoundingSphere fs p =
     (if mode fs = SCENE3D then u_boundingSphere p
      else if mode fs = COLUMBUS_VIEW then u_boundingSphere2D p
      else if mode fs = SCENE2D \<and> u_boundingSphere2D p \<noteq> None
        then map_option CenterX0 (u_boundingSphere2D p)
      else (case (u_boundingSphere p, u_boundingSphere2D p) of
              (Some b3, Some b2) \<Rightarrow> Some (Union b3 b2)
            | _ \<Rightarrow> None))"

definition emitCommands :: "frameState \<Rightarrow> world \<Rightarrow> outcome \<times> world" where
  "emitCommands fs w =
     (let boundingSphere = selectBoundingSphere fs (prim w);
          m = modelMatrix (prim w)
      in (case setCommands (\<lambda>c. c\<lparr> dc_modelMatrix := Some m \<rparr>)
                           (\<lambda>c. c\<lparr> dc_modelMatrix := Some m, dc_boundingVolume := boundingSphere \<rparr>)
                           (\<lambda>c. c\<lparr> dc_modelMatrix := Some m, dc_boundingVolume := boundingSphere \<rparr>) w of
            (Some e, w1) \<Rightarrow> (Threw e, w1)
          | (None, w1) \<Rightarrow>
              (Returned, w1\<lparr> commandList := commandList w1 @ [u_commandLists (prim w1)] \<rparr>)))"

definition completeState :: "frameState \<Rightarrow> world \<Rightarrow> outcome \<times> world" where
  "completeState fs w =
     (case refreshAppearance w of
        (Some e, w1) \<Rightarrow> (Threw e, w1)
      | (None, w1) \<Rightarrow>
         (case flushDirtyAttributes w1 of
            (Some e, w2) \<Rightarrow> (Threw e, w2)
          | (None, w2) \<Rightarrow> emitCommands fs w2))"

section \<open>update\<close>

text \<open>The early-exit condition of update.\<close>

definition earlyExit :: "frameState \<Rightarrow> primitive \<Rightarrow> bool" where
  "earlyExit fs p =
     (\<not> p_show p \<or>
      (geometryInstances p = None \<and> length (u_va p) = 0) \<or>
      appearance p = None \<or>
      (mode fs \<noteq> SCENE3D \<and> u_allow3DOnly p) \<or>
      (\<not> color (fs_passes fs) \<and> \<not> pick (fs_passes fs)))"

definition update :: "frameState \<Rightarrow> world \<Rightarrow> outcome \<times> world" where
  "update fs w =
     (if earlyExit fs (prim w) then (Returned, w)
      else
        (case (if state (prim w) = READY then readyBranch fs w
               else if state (prim w) = COMBINED then combinedBranch fs w
               else (Proceed, w)) of
           (Exit out, w1) \<Rightarrow> (out, w1)
         | (Proceed, w1) \<Rightarrow>
             (if state (prim w1) \<noteq> COMPLETE then (Returned, w1)
              else completeState fs w1)))"

section \<open>The operations as events\<close>

text \<open>
  What can happen to a primitive: a frame update, the settling of the combine promise
  (which runs one of the two callbacks, once, some time after they were registered), an
  attribute lookup, and an assignment through an accessor; besides, the caller may assign
  the public fields between two calls, and the task processor may become busy or free.
  \<open>None\<close> says that the event cannot happen: no promise is settled that has no
  callbacks registered.
\<close>

datatype event =
    Update frameState
  | Resolve nat combineResult
  | Reject nat
  | GetAttributes "instanceId option"
  | SetAttribute string perInstanceObject jsvalue
  | AssignShow bool
  | AssignAppearance "appearance option"
  | AssignGeometryInstances "instances option"
  | AssignModelMatrix matrix4
  | Scheduler bool

definition step :: "world \<Rightarrow> event \<Rightarrow> world option" where
  "step w e =
     (case e of
        Update fs \<Rightarrow> Some (snd (update fs w))
      | Resolve pr result \<Rightarrow>
          (if pr \<in> set (registered w)
           then Some (w\<lparr> registered := removeAll pr (registered w),
                         prim := combineSucceeded result (prim w) \<rparr>)
           else None)
      | Reject pr \<Rightarrow>
          (if pr \<in> set (registered w)
           then Some (w\<lparr> registered := removeAll pr (registered w),
                         prim := combineFailed (prim w) \<rparr>)
           else None)
      | GetAttributes ident \<Rightarrow>
          Some (w\<lparr> prim := snd (getGeometryInstanceAttributes ident (prim w)) \<rparr>)
      | SetAttribute name obj v \<Rightarrow> Some (snd (createSetFunction name obj v w))
      | AssignShow b \<Rightarrow> Some (w\<lparr> prim := (prim w)\<lparr> p_show := b \<rparr> \<rparr>)
      | AssignAppearance a \<Rightarrow> Some (w\<lparr> prim := (prim w)\<lparr> appearance := a \<rparr> \<rparr>)
      | AssignGeometryInstances gi \<Rightarrow>
          Some (w\<lparr> prim := (prim w)\<lparr> geometryInstances := gi \<rparr> \<rparr>)
      | AssignModelMatrix m \<Rightarrow> Some (w\<lparr> prim := (prim w)\<lparr> modelMatrix := m \<rparr> \<rparr>)
      | Scheduler b \<Rightarrow>
          Some (w\<lparr> taskProcessor := (taskProcessor w)\<lparr> tp_accepts := b \<rparr> \<rparr>))"

fun run :: "world \<Rightarrow> event list \<Rightarrow> world option" where
  "run w [] = Some w"
| "run w (e # es) = (case step w e of None \<Rightarrow> None | Some w1 \<Rightarrow> run w1 es)"

text \<open>A world in which a primitive has just been constructed.\<close>

definition newWorld :: "renderContext \<Rightarrow> taskProcessor \<Rightarrow> (addr \<Rightarrow> attribute) \<Rightarrow> (addr \<Rightarrow> vaAttribute)
    \<Rightarrow> options \<Rightarrow> commandLists list \<Rightarrow> world" where
  "newWorld c tp ah vh opts cl =
     \<lparr> ctx = c, taskProcessor = tp, registered = [], attributeHeap = ah,
       vaAttributeHeap = vh, prim = Primitive opts, commandList = cl \<rparr>"

section \<open>The dirty queue: what the flush is expected to do\<close>







text \<open>The part of the world that is written only by the READY and COMBINED branches of
  update and by the promise callbacks: the state, the registered promises, the retained
  instances and the two geometry fields.\<close>

definition lifecycle ::
  "world \<Rightarrow> PrimitiveState \<times> nat list \<times> instances option \<times> geometry list option \<times> geometry list option" where
  "lifecycle w =
     (state (prim w), registered w, geometryInstances (prim w), u_geometries (prim w),
      u_geomtries (prim w))"


section \<open>Example values\<close>

definition exampleDatatype :: componentDatatype where
  "exampleDatatype = \<lparr> sizeInBytes = 4, toElement = (\<lambda>x. x) \<rparr>"

definition exampleProjection :: projection where
  "exampleProjection = \<lparr> ellipsoid = 0, isGeographic = True \<rparr>"

definition exampleGeometry :: geometry where
  "exampleGeometry =
     \<lparr> g_attributes = [(''position'', Some \<lparr> ga_componentDatatype = exampleDatatype,
                                              ga_componentsPerAttribute = 3,
                                              ga_normalize = False,
                                              ga_values = [0, 0, 0] \<rparr>)],
       g_indices = None, g_primitiveType = 4,
       g_boundingSphere = Some (Sphere 0 0 0 1) \<rparr>"

definition exampleInstance :: "string \<Rightarrow> geometryInstance" where
  "exampleInstance i =
     \<lparr> gi_geometry = exampleGeometry, gi_modelMatrix = Matrix4_IDENTITY, gi_id = Some i,
       gi_attributes = [(''show'', \<lparr> gia_componentDatatype = exampleDatatype,
                                     gia_componentsPerAttribute = 1,
                                     gia_normalize = False, gia_value = [1] \<rparr>)] \<rparr>"

definition exampleAppearance :: appearance where
  "exampleAppearance =
     \<lparr> ap_ref = 1, ap_material = None, ap_renderState = 0,
       ap_vertexShaderSource = Source ''vs'', ap_fragmentShaderSource = Source ''fs'' \<rparr>"

definition exampleContext :: renderContext where
  "exampleContext =
     \<lparr> ctx_pickObjects = [], ctx_vertexBuffers = [], ctx_vertexArrays = [],
       ctx_renderStates = [], ctx_shaderPrograms = [], ctx_bufferWrites = [],
       ctx_activeAttributes = (\<lambda>vs fs. [''position3DHigh'', ''show'']),
       ctx_elementIndexUint = True \<rparr>"

definition exampleAttributeHeap :: "addr \<Rightarrow> attribute" where
  "exampleAttributeHeap =
     (\<lambda>a. \<lparr> a_value = [1],
             a_indices = [\<lparr> r_offset = 2 * a, r_count = 2, r_attribute = 0 \<rparr>],
             a_dirty = False \<rparr>)"

definition exampleVaAttributeHeap :: "addr \<Rightarrow> vaAttribute" where
  "exampleVaAttributeHeap =
     (\<lambda>a. \<lparr> va_componentDatatype = exampleDatatype, va_componentsPerAttribute = 1,
             va_values = Some [1, 1, 1, 1], va_vertexBuffer = None \<rparr>)"

definition exampleOptions :: options where
  "exampleOptions =
     \<lparr> o_geometryInstances = Some (Array [exampleInstance ''A'', exampleInstance ''B'']),
       o_appearance = Some exampleAppearance,
       o_vertexCacheOptimize = None, o_releaseGeometryInstances = None,
       o_allow3DOnly = None \<rparr>"

definition exampleWorld :: "bool \<Rightarrow> world" where
  "exampleWorld accepts =
     newWorld exampleContext \<lparr> tp_accepts = accepts, tp_scheduled = [] \<rparr>
       exampleAttributeHeap exampleVaAttributeHeap exampleOptions []"

text \<open>A primitive constructed with an empty array of instances.\<close>

definition exampleEmpty :: world where
  "exampleEmpty =
     newWorld exampleContext \<lparr> tp_accepts = True, tp_scheduled = [] \<rparr>
       exampleAttributeHeap exampleVaAttributeHeap
       (exampleOptions\<lparr> o_geometryInstances := Some (Array []) \<rparr>) []"

definition exampleFrame :: "SceneMode \<Rightarrow> frameState" where
  "exampleFrame m =
     \<lparr> mode = m, fs_passes = \<lparr> color = True, pick = False \<rparr>,
       fs_scene2D = \<lparr> s2d_projection = exampleProjection \<rparr> \<rparr>"

definition exampleTable :: perInstanceAttributes where
  "exampleTable =
     \<lparr> pia_ids = Some [Some ''A'', Some ''B''],
       pia_indices = Some [[(''show'', 0)], [(''show'', 1)]] \<rparr>"

definition exampleResult :: combineResult where
  "exampleResult =
     \<lparr> r_geometries = Some [exampleGeometry],
       r_attributeIndices = Some [(''position3DHigh'', 0), (''position3DLow'', 1), (''show'', 2)],
       r_vaAttributes = Some [[0]],
       r_vaAttributeIndices = Some exampleTable,
       r_modelMatrix = Some Matrix4_IDENTITY \<rparr>"

text \<open>The example primitive after its first update, after the combine result arrived, and
  after the update that builds the vertex arrays.\<close>

definition exampleCombining :: world where
  "exampleCombining = snd (update (exampleFrame SCENE3D) (exampleWorld True))"

definition exampleCombined :: world where
  "exampleCombined =
     exampleCombining\<lparr> registered := [],
                       prim := combineSucceeded exampleResult (prim exampleCombining) \<rparr>"


definition exampleFailed :: world where
  "exampleFailed =
     exampleCombining\<lparr> registered := [], prim := combineFailed (prim exampleCombining) \<rparr>"

section \<open>Attribute lookup\<close>


lemma findIndex_Some:
  "findIndex ident ids lastIndex len i = Some k \<Longrightarrow>
     \<exists>j. i \<le> j \<and> j < len \<and> k = (lastIndex + j) mod len \<and> ids ! k = Some ident \<and>
         (\<forall>j'. i \<le> j' \<and> j' < j \<longrightarrow> ids ! ((lastIndex + j') mod len) \<noteq> Some ident)"
proof (induction ident ids lastIndex len i rule: findIndex.induct)
  case (1 ident ids lastIndex len i)
  show ?case
  proof (cases "i < len")
    case False
    with "1.prems" show ?thesis unfolding findIndex.simps[of ident ids lastIndex len i] by simp
  next
    case True
    show ?thesis
    proof (cases "ids ! ((lastIndex + i) mod len) = Some ident")
      case hit: True
      with True "1.prems" have "k = (lastIndex + i) mod len"
        unfolding findIndex.simps[of ident ids lastIndex len i] by simp
      with hit True show ?thesis by (intro exI[of _ i]) auto
    next
      case miss: False
      with True "1.prems" have "findIndex ident ids lastIndex len (Suc i) = Some k"
        unfolding findIndex.simps[of ident ids lastIndex len i] by simp
      from "1.IH"[OF True miss this] obtain j where
        j: "Suc i \<le> j" "j < len" "k = (lastIndex + j) mod len" "ids ! k = Some ident"
           "\<forall>j'. Suc i \<le> j' \<and> j' < j \<longrightarrow> ids ! ((lastIndex + j') mod len) \<noteq> Some ident"
        by blast
      have "\<forall>j'. i \<le> j' \<and> j' < j \<longrightarrow> ids ! ((lastIndex + j') mod len) \<noteq> Some ident"
      proof (intro allI impI)
        fix j' assume a: "i \<le> j' \<and> j' < j"
        show "ids ! ((lastIndex + j') mod len) \<noteq> Some ident"
        proof (cases "j' = i")
          case True with miss show ?thesis by simp
        next
          case False with a j(5) show ?thesis by auto
        qed
      qed
      with j show ?thesis by (intro exI[of _ j]) auto
    qed
  qed
qed

lemma findIndex_None:
  "findIndex ident ids lastIndex len i = None \<Longrightarrow> i \<le> j \<Longrightarrow> j < len \<Longrightarrow>
     ids ! ((lastIndex + j) mod len) \<noteq> Some ident"
proof (induction ident ids lastIndex len i rule: findIndex.induct)
  case (1 ident ids lastIndex len i)
  from "1.prems" have lt: "i < len" by simp
  show ?case
  proof (cases "ids ! ((lastIndex + i) mod len) = Some ident")
    case True
    with lt "1.prems"(1) show ?thesis unfolding findIndex.simps[of ident ids lastIndex len i] by simp
  next
    case miss: False
    with lt "1.prems"(1) have n: "findIndex ident ids lastIndex len (Suc i) = None"
      unfolding findIndex.simps[of ident ids lastIndex len i] by simp
    show ?thesis
    proof (cases "j = i")
      case True with miss show ?thesis by simp
    next
      case False
      with "1.prems" have "Suc i \<le> j" by simp
      from "1.IH"[OF lt miss n this "1.prems"(3)] show ?thesis .
    qed
  qed
qed

lemma rotation_onto:
  assumes "k < (len::nat)"
  shows "\<exists>j < len. (lastIndex + j) mod len = k"
proof -
  let ?j = "(k + (len - lastIndex mod len)) mod len"
  from assms have pos: "0 < len" by simp
  have "?j < len" using pos by simp
  moreover have "(lastIndex + ?j) mod len = k"
  proof -
    have "(lastIndex + ?j) mod len = (lastIndex mod len + (k + (len - lastIndex mod len))) mod len"
      by (metis mod_add_eq mod_mod_trivial)
    also have "lastIndex mod len + (k + (len - lastIndex mod len)) = k + len"
    proof -
      have "lastIndex mod len < len" using pos by simp
      then show ?thesis by arith
    qed
    also have "(k + len) mod len = k" using assms by simp
    finally show ?thesis .
  qed
  ultimately show ?thesis by blast
qed

lemma findIndex_present:
  assumes "Some ident \<in> set ids"
  shows "findIndex ident ids lastIndex (length ids) 0 \<noteq> None"
proof
  assume n: "findIndex ident ids lastIndex (length ids) 0 = None"
  from assms obtain k where k: "k < length ids" "ids ! k = Some ident"
    by (auto simp: in_set_conv_nth)
  from rotation_onto[OF k(1)] obtain j where "j < length ids" "(lastIndex + j) mod length ids = k"
    by blast
  with findIndex_None[OF n, of j] k show False by simp
qed




text \<open>
  C4. On a populated table (an \<^verbatim>\<open>ids\<close> array with an \<^verbatim>\<open>indices\<close> array of the same
  length), for every stored id and every value of the rotating start index the lookup
  returns the accessor of a record stored under that id, namely the first one met when
  going round from the start index, and remembers its index; for an id that is not stored
  it returns \<^verbatim>\<open>undefined\<close> and changes nothing.
\<close>

theorem lookup_exhaustive:
  assumes "u_perInstanceAttributes p = Some t"
    and "pia_ids t = Some ids" and "pia_indices t = Some inds"
    and "length inds = length ids"
  shows "(Some ident \<in> set ids \<longrightarrow>
            (\<exists>j < length ids.
               ids ! ((u_lastPerInstanceAttributeIndex p + j) mod length ids) = Some ident \<and>
               (\<forall>j' < j. ids ! ((u_lastPerInstanceAttributeIndex p + j') mod length ids) \<noteq> Some ident) \<and>
               getGeometryInstanceAttributes (Some ident) p =
                 (Inr (Some \<lparr> acc_names = map fst (inds ! ((u_lastPerInstanceAttributeIndex p + j) mod length ids)),
                              acc_target = inds ! ((u_lastPerInstanceAttributeIndex p + j) mod length ids) \<rparr>),
                  p\<lparr> u_lastPerInstanceAttributeIndex :=
                       (u_lastPerInstanceAttributeIndex p + j) mod length ids \<rparr>))) \<and>
         (Some ident \<notin> set ids \<longrightarrow> getGeometryInstanceAttributes (Some ident) p = (Inr None, p))"
proof (intro conjI impI)
  assume present: "Some ident \<in> set ids"
  let ?last = "u_lastPerInstanceAttributeIndex p"
  from findIndex_present[OF present] obtain k
    where k: "findIndex ident ids ?last (length ids) 0 = Some k" by blast
  from findIndex_Some[OF k] obtain j where
    j: "j < length ids" "k = (?last + j) mod length ids" "ids ! k = Some ident"
       "\<forall>j'. 0 \<le> j' \<and> j' < j \<longrightarrow> ids ! ((?last + j') mod length ids) \<noteq> Some ident"
    by blast
  from j(1) have "0 < length ids" by linarith
  then have "k < length inds" using assms(4) j(2) by simp
  with assms k have "getGeometryInstanceAttributes (Some ident) p =
      (Inr (Some \<lparr> acc_names = map fst (inds ! k), acc_target = inds ! k \<rparr>),
       p\<lparr> u_lastPerInstanceAttributeIndex := k \<rparr>)"
    by (simp add: getGeometryInstanceAttributes_def Let_def)
  with j show "\<exists>j < length ids.
       ids ! ((?last + j) mod length ids) = Some ident \<and>
       (\<forall>j' < j. ids ! ((?last + j') mod length ids) \<noteq> Some ident) \<and>
       getGeometryInstanceAttributes (Some ident) p =
         (Inr (Some \<lparr> acc_names = map fst (inds ! ((?last + j) mod length ids)),
                      acc_target = inds ! ((?last + j) mod length ids) \<rparr>),
          p\<lparr> u_lastPerInstanceAttributeIndex := (?last + j) mod length ids \<rparr>)"
    by (intro exI[of _ j]) auto
next
  assume absent: "Some ident \<notin> set ids"
  have "findIndex ident ids (u_lastPerInstanceAttributeIndex p) (length ids) 0 = None"
  proof (rule ccontr)
    assume "findIndex ident ids (u_lastPerInstanceAttributeIndex p) (length ids) 0 \<noteq> None"
    then obtain k where "findIndex ident ids (u_lastPerInstanceAttributeIndex p) (length ids) 0 = Some k"
      by blast
    from findIndex_Some[OF this] obtain j where "j < length ids"
      "ids ! ((u_lastPerInstanceAttributeIndex p + j) mod length ids) = Some ident" by auto
    moreover from \<open>j < length ids\<close> have "0 < length ids" by linarith
    then have "(u_lastPerInstanceAttributeIndex p + j) mod length ids < length ids"
      by (rule mod_less_divisor)
    ultimately have "Some ident \<in> set ids" by (metis nth_mem)
    with absent show False by simp
  qed
  with assms show "getGeometryInstanceAttributes (Some ident) p = (Inr None, p)"
    by (simp add: getGeometryInstanceAttributes_def)
qed

theorem lookup_exhaustive_witness:
  "Some ''B'' \<in> set [Some ''A'', Some ''B''] \<and>
   fst (getGeometryInstanceAttributes (Some ''B'') (prim exampleCombined))
     = Inr (Some \<lparr> acc_names = [''show''], acc_target = [(''show'', 1)] \<rparr>) \<and>
   getGeometryInstanceAttributes (Some ''C'') (prim exampleCombined)
     = (Inr None, prim exampleCombined)"
proof -
  have t: "u_perInstanceAttributes (prim exampleCombined) = Some exampleTable"
    by (simp add: exampleCombined_def combineSucceeded_def exampleResult_def)
  have l: "u_lastPerInstanceAttributeIndex (prim exampleCombined) = 0"
    by code_simp
  have i: "pia_ids exampleTable = Some [Some ''A'', Some ''B'']"
          "pia_indices exampleTable = Some [[(''show'', 0)], [(''show'', 1)]]"
    by (simp_all add: exampleTable_def)
  have len: "length [[(''show'', 0::nat)], [(''show'', 1)]] = length [Some ''A'', Some ''B'']"
    by simp
  from lookup_exhaustive[OF t i len, of "''B''"] lookup_exhaustive[OF t i len, of "''C''"] l
  show ?thesis
    by (auto simp: less_Suc_eq numeral_2_eq_2)
qed


section \<open>The early exit of update\<close>

text \<open>
  C5, as the code has it. update returns at once, leaving the primitive, the context, the
  task processor, the heaps and the command list exactly as they were, whenever the
  primitive is hidden, or its \<open>geometryInstances\<close> is \<^verbatim>\<open>undefined\<close> and it has no
  vertex arrays, or no appearance is set, or it is restricted to 3D and the frame is not
  in 3D mode, or the frame asks for neither the colour nor the pick pass.
\<close>

theorem update_early_exit_noop:
  assumes "\<not> p_show (prim w) \<or>
           (geometryInstances (prim w) = None \<and> u_va (prim w) = []) \<or>
           appearance (prim w) = None \<or>
           (u_allow3DOnly (prim w) \<and> mode fs \<noteq> SCENE3D) \<or>
           (\<not> color (fs_passes fs) \<and> \<not> pick (fs_passes fs))"
  shows "update fs w = (Returned, w)"
  using assms by (auto simp: update_def earlyExit_def)

theorem update_early_exit_noop_witness:
  "u_allow3DOnly (prim (newWorld exampleContext \<lparr> tp_accepts = True, tp_scheduled = [] \<rparr>
       exampleAttributeHeap exampleVaAttributeHeap (exampleOptions\<lparr> o_allow3DOnly := Some True \<rparr>) [])) \<and>
   mode (exampleFrame SCENE2D) \<noteq> SCENE3D \<and>
   update (exampleFrame SCENE2D)
     (newWorld exampleContext \<lparr> tp_accepts = True, tp_scheduled = [] \<rparr>
        exampleAttributeHeap exampleVaAttributeHeap (exampleOptions\<lparr> o_allow3DOnly := Some True \<rparr>) [])
     = (Returned, newWorld exampleContext \<lparr> tp_accepts = True, tp_scheduled = [] \<rparr>
        exampleAttributeHeap exampleVaAttributeHeap (exampleOptions\<lparr> o_allow3DOnly := Some True \<rparr>) []) \<and>
   state (prim (newWorld exampleContext \<lparr> tp_accepts = True, tp_scheduled = [] \<rparr>
        exampleAttributeHeap exampleVaAttributeHeap (exampleOptions\<lparr> o_allow3DOnly := Some True \<rparr>) [])) = READY"
proof -
  let ?w = "newWorld exampleContext \<lparr> tp_accepts = True, tp_scheduled = [] \<rparr>
        exampleAttributeHeap exampleVaAttributeHeap (exampleOptions\<lparr> o_allow3DOnly := Some True \<rparr>) []"
  have a: "u_allow3DOnly (prim ?w)" and s: "state (prim ?w) = READY"
    by (simp_all add: newWorld_def Primitive_def defaultValue_def)
  have m: "mode (exampleFrame SCENE2D) \<noteq> SCENE3D"
    by (simp add: exampleFrame_def)
  from a m have "update (exampleFrame SCENE2D) ?w = (Returned, ?w)"
    by (intro update_early_exit_noop) simp
  with a m s show ?thesis by simp
qed

text \<open>The claim C5 as it was stated has update do nothing when there are no geometry
  instances and no vertex arrays. An empty array of instances is not \<^verbatim>\<open>undefined\<close>:
  the primitive below has no instance and no vertex array, and its update schedules a
  combine task and moves from READY to COMBINING.\<close>

theorem update_empty_instances_counterexample:
  "geometryInstances (prim exampleEmpty) = Some (Array []) \<and>
   instanceArray (Array []) = [] \<and>
   u_va (prim exampleEmpty) = [] \<and>
   state (prim exampleEmpty) = READY \<and>
   tp_scheduled (taskProcessor exampleEmpty) = [] \<and>
   fst (update (exampleFrame SCENE3D) exampleEmpty) = Returned \<and>
   state (prim (snd (update (exampleFrame SCENE3D) exampleEmpty))) = COMBINING \<and>
   length (tp_scheduled (taskProcessor (snd (update (exampleFrame SCENE3D) exampleEmpty)))) = 1 \<and>
   snd (update (exampleFrame SCENE3D) exampleEmpty) \<noteq> exampleEmpty"
proof -
  have s: "state (prim (snd (update (exampleFrame SCENE3D) exampleEmpty))) = COMBINING"
    by code_simp
  have r: "state (prim exampleEmpty) = READY"
    by (simp add: exampleEmpty_def newWorld_def Primitive_def)
  from s r have "snd (update (exampleFrame SCENE3D) exampleEmpty) \<noteq> exampleEmpty"
    by auto
  moreover have "geometryInstances (prim exampleEmpty) = Some (Array [])"
    "instanceArray (Array []) = []" "u_va (prim exampleEmpty) = []"
    "tp_scheduled (taskProcessor exampleEmpty) = []"
    by (simp_all add: exampleEmpty_def newWorld_def Primitive_def exampleOptions_def
        instanceArray_def)
  moreover have "fst (update (exampleFrame SCENE3D) exampleEmpty) = Returned"
    "length (tp_scheduled (taskProcessor (snd (update (exampleFrame SCENE3D) exampleEmpty)))) = 1"
    by code_simp+
  ultimately show ?thesis using s r by simp
qed

section \<open>Assignment through an accessor\<close>

lemma accessor_names:
  assumes "getGeometryInstanceAttributes ident p = (Inr (Some acc), p')"
  shows "acc_names acc = map fst (acc_target acc)"
  using assms
  by (auto simp: getGeometryInstanceAttributes_def Let_def split: option.splits if_splits)

lemma map_of_defined: "name \<in> set (map fst obj) \<Longrightarrow> \<exists>a. map_of obj name = Some a"
  by (induction obj) auto

text \<open>
  C7, as the code has it. For a property of an accessor returned by
  getGeometryInstanceAttributes, an assignment fails with the DeveloperError about the
  length exactly when the value is \<^verbatim>\<open>undefined\<close>, is a non-null value without a
  length, or has a length outside 1 to 4; it fails with a TypeError exactly when the value
  is \<^verbatim>\<open>null\<close>; a failed assignment changes nothing. A successful one stores the value
  in the record, and appends the record to the dirty queue and flags it dirty if it was
  not flagged already.
\<close>

theorem accessor_set_cases:
  assumes "getGeometryInstanceAttributes ident p = (Inr (Some acc), p')"
    and "name \<in> set (acc_names acc)"
  shows "\<exists>a. map_of (acc_target acc) name = Some a \<and>
     ((\<exists>m. fst (createSetFunction name (acc_target acc) v w) = Threw (DeveloperError m)) =
        (v = Undefined \<or> v = NoLength \<or>
         (\<exists>xs. v = ArrayLike xs \<and> (length xs < 1 \<or> 4 < length xs)))) \<and>
     ((fst (createSetFunction name (acc_target acc) v w) = Threw TypeError) = (v = Null)) \<and>
     (fst (createSetFunction name (acc_target acc) v w) \<noteq> Returned \<longrightarrow>
        snd (createSetFunction name (acc_target acc) v w) = w) \<and>
     (\<forall>xs. v = ArrayLike xs \<and> 1 \<le> length xs \<and> length xs \<le> 4 \<longrightarrow>
        createSetFunction name (acc_target acc) v w =
          (Returned,
           w\<lparr> attributeHeap := (attributeHeap w)
                  (a := (attributeHeap w a)\<lparr> a_value := xs, a_dirty := True \<rparr>),
              prim := (prim w)\<lparr> u_dirtyAttributes :=
                 (if a_dirty (attributeHeap w a) then u_dirtyAttributes (prim w)
                  else u_dirtyAttributes (prim w) @ [a]) \<rparr> \<rparr>))"
proof -
  from assms obtain a where a: "map_of (acc_target acc) name = Some a"
    using accessor_names map_of_defined by metis
  have "(\<exists>m. fst (createSetFunction name (acc_target acc) v w) = Threw (DeveloperError m)) =
        (v = Undefined \<or> v = NoLength \<or>
         (\<exists>xs. v = ArrayLike xs \<and> (length xs < 1 \<or> 4 < length xs)))"
    using a by (cases v) (auto simp: createSetFunction_def lengthError_def Let_def)
  moreover have "(fst (createSetFunction name (acc_target acc) v w) = Threw TypeError) = (v = Null)"
    using a by (cases v) (auto simp: createSetFunction_def lengthError_def Let_def)
  moreover have "fst (createSetFunction name (acc_target acc) v w) \<noteq> Returned \<longrightarrow>
        snd (createSetFunction name (acc_target acc) v w) = w"
    using a by (cases v) (auto simp: createSetFunction_def lengthError_def Let_def)
  moreover have "\<forall>xs. v = ArrayLike xs \<and> 1 \<le> length xs \<and> length xs \<le> 4 \<longrightarrow>
        createSetFunction name (acc_target acc) v w =
          (Returned,
           w\<lparr> attributeHeap := (attributeHeap w)
                  (a := (attributeHeap w a)\<lparr> a_value := xs, a_dirty := True \<rparr>),
              prim := (prim w)\<lparr> u_dirtyAttributes :=
                 (if a_dirty (attributeHeap w a) then u_dirtyAttributes (prim w)
                  else u_dirtyAttributes (prim w) @ [a]) \<rparr> \<rparr>)"
  proof (intro allI impI)
    fix xs assume v: "v = ArrayLike xs \<and> 1 \<le> length xs \<and> length xs \<le> 4"
    show "createSetFunction name (acc_target acc) v w =
          (Returned,
           w\<lparr> attributeHeap := (attributeHeap w)
                  (a := (attributeHeap w a)\<lparr> a_value := xs, a_dirty := True \<rparr>),
              prim := (prim w)\<lparr> u_dirtyAttributes :=
                 (if a_dirty (attributeHeap w a) then u_dirtyAttributes (prim w)
                  else u_dirtyAttributes (prim w) @ [a]) \<rparr> \<rparr>)"
    proof (cases "a_dirty (attributeHeap w a)")
      case True
      have eq: "(attributeHeap w a)\<lparr> a_value := xs, a_dirty := True \<rparr> = (attributeHeap w a)\<lparr> a_value := xs \<rparr>"
        using True by (cases "attributeHeap w a") simp
      from v have "xs \<noteq> []" by auto
      with True v a have "createSetFunction name (acc_target acc) v w =
          (Returned, w\<lparr> attributeHeap := (attributeHeap w)
                  (a := (attributeHeap w a)\<lparr> a_value := xs \<rparr>) \<rparr>)"
        by (simp add: createSetFunction_def Let_def)
      then show ?thesis unfolding eq using True by simp
    next
      case False
      with v a show ?thesis
        by (auto simp: createSetFunction_def Let_def)
    qed
  qed
  ultimately show ?thesis using a by blast
qed


lemma exampleCombined_table:
  "u_perInstanceAttributes (prim exampleCombined) = Some exampleTable"
  by (simp add: exampleCombined_def combineSucceeded_def exampleResult_def)

lemma exampleCombined_last:
  "u_lastPerInstanceAttributeIndex (prim exampleCombined) = 0"
  by code_simp

lemma exampleLookup:
  "fst (getGeometryInstanceAttributes (Some ''B'') (prim exampleCombined)) =
     Inr (Some \<lparr> acc_names = [''show''], acc_target = [(''show'', 1)] \<rparr>)"
  by (simp add: getGeometryInstanceAttributes_def exampleCombined_table exampleCombined_last
      exampleTable_def findIndex.simps[of _ _ _ _ 0] findIndex.simps[of _ _ _ _ "Suc 0"] Let_def
      split: option.splits)

theorem accessor_set_cases_witness:
  "getGeometryInstanceAttributes (Some ''B'') (prim exampleCombined) =
     (Inr (Some \<lparr> acc_names = [''show''], acc_target = [(''show'', 1)] \<rparr>),
      snd (getGeometryInstanceAttributes (Some ''B'') (prim exampleCombined))) \<and>
   ''show'' \<in> set (acc_names \<lparr> acc_names = [''show''], acc_target = [(''show'', 1)] \<rparr>) \<and>
   fst (createSetFunction ''show'' [(''show'', 1)] (ArrayLike [0]) exampleCombined) = Returned \<and>
   (\<exists>m. fst (createSetFunction ''show'' [(''show'', 1)] (ArrayLike []) exampleCombined)
          = Threw (DeveloperError m))"
proof -
  let ?acc = "\<lparr> acc_names = [''show''], acc_target = [(''show'', 1)] \<rparr>"
  have g: "getGeometryInstanceAttributes (Some ''B'') (prim exampleCombined) =
     (Inr (Some ?acc), snd (getGeometryInstanceAttributes (Some ''B'') (prim exampleCombined)))"
    using exampleLookup by (simp add: prod_eq_iff)
  have n: "''show'' \<in> set (acc_names ?acc)" by simp
  from accessor_set_cases[OF g n, of "ArrayLike [0]" exampleCombined]
  have "fst (createSetFunction ''show'' [(''show'', 1)] (ArrayLike [0]) exampleCombined) = Returned"
    by auto
  moreover from accessor_set_cases[OF g n, of "ArrayLike []" exampleCombined]
  have "\<exists>m. fst (createSetFunction ''show'' [(''show'', 1)] (ArrayLike []) exampleCombined)
          = Threw (DeveloperError m)"
    by auto
  ultimately show ?thesis using g n by blast
qed

text \<open>The claim C7 as it was stated has every value without a length fail with the
  DeveloperError; \<^verbatim>\<open>null\<close> is such a value, and the assignment of \<^verbatim>\<open>null\<close> fails
  with a TypeError instead, raised by reading \<^verbatim>\<open>value.length\<close>.\<close>

theorem accessor_set_null_counterexample:
  "fst (createSetFunction ''show'' [(''show'', 1)] Null exampleCombined) = Threw TypeError \<and>
   fst (createSetFunction ''show'' [(''show'', 1)] Null exampleCombined) \<noteq> Threw lengthError"
  by (simp add: createSetFunction_def lengthError_def)


section \<open>Shader validation\<close>








section \<open>The READY branch\<close>

lemma pickObject_cloneInstance [simp]: "pickObject (cloneInstance i) = pickObject i"
  by (simp add: pickObject_def cloneInstance_def)

lemma createPickIds_eq:
  "\<exists>new. length new = length insts \<and> map pid_object new = map pickObject insts \<and>
     snd (createPickIds insts pickColors w) =
       w\<lparr> ctx := (ctx w)\<lparr> ctx_pickObjects := ctx_pickObjects (ctx w) @ map pickObject insts \<rparr>,
          prim := (prim w)\<lparr> u_pickIds := u_pickIds (prim w) @ new \<rparr> \<rparr>"
proof (induction insts arbitrary: pickColors w)
  case Nil
  show ?case by simp
next
  case (Cons inst insts)
  let ?pid = "\<lparr> pid_object = pickObject inst, pid_color = length (ctx_pickObjects (ctx w)) \<rparr>"
  let ?w1 = "w\<lparr> ctx := (ctx w)\<lparr> ctx_pickObjects := ctx_pickObjects (ctx w) @ [pickObject inst] \<rparr>,
               prim := (prim w)\<lparr> u_pickIds := u_pickIds (prim w) @ [?pid] \<rparr> \<rparr>"
  from Cons.IH[of "pickColors @ [pid_color ?pid]" ?w1] obtain new where
    new: "length new = length insts" "map pid_object new = map pickObject insts"
      "snd (createPickIds insts (pickColors @ [pid_color ?pid]) ?w1) =
         ?w1\<lparr> ctx := (ctx ?w1)\<lparr> ctx_pickObjects := ctx_pickObjects (ctx ?w1) @ map pickObject insts \<rparr>,
             prim := (prim ?w1)\<lparr> u_pickIds := u_pickIds (prim ?w1) @ new \<rparr> \<rparr>"
    by blast
  have "snd (createPickIds (inst # insts) pickColors w) =
        snd (createPickIds insts (pickColors @ [pid_color ?pid]) ?w1)"
    by (simp add: createPickId_def)
  with new(3) have "snd (createPickIds (inst # insts) pickColors w) =
       w\<lparr> ctx := (ctx w)\<lparr> ctx_pickObjects := ctx_pickObjects (ctx w) @ map pickObject (inst # insts) \<rparr>,
          prim := (prim w)\<lparr> u_pickIds := u_pickIds (prim w) @ (?pid # new) \<rparr> \<rparr>"
    by simp
  with new(1,2) show ?case
    by (intro exI[of _ "?pid # new"]) simp
qed

lemma readyBranch_eq:
  assumes "geometryInstances (prim w) = Some gi"
  shows "\<exists>new t. length new = length (instanceArray gi) \<and>
     map pid_object new = map pickObject (instanceArray gi) \<and>
     readyBranch fs w =
       (if tp_accepts (taskProcessor w)
        then (Proceed,
              w\<lparr> ctx := (ctx w)\<lparr> ctx_pickObjects :=
                            ctx_pickObjects (ctx w) @ map pickObject (instanceArray gi) \<rparr>,
                 taskProcessor := (taskProcessor w)\<lparr> tp_scheduled :=
                            tp_scheduled (taskProcessor w) @ [t] \<rparr>,
                 registered := registered w @ [length (tp_scheduled (taskProcessor w))],
                 prim := (prim w)\<lparr> u_pickIds := u_pickIds (prim w) @ new,
                                    state := COMBINING \<rparr> \<rparr>)
        else (Exit Returned,
              w\<lparr> ctx := (ctx w)\<lparr> ctx_pickObjects :=
                            ctx_pickObjects (ctx w) @ map pickObject (instanceArray gi) \<rparr>,
                 prim := (prim w)\<lparr> u_pickIds := u_pickIds (prim w) @ new \<rparr> \<rparr>))"
proof -
  let ?insts = "map cloneInstance (instanceArray gi)"
  obtain pcs w1 where c: "createPickIds ?insts [] w = (pcs, w1)" by (cases "createPickIds ?insts [] w")
  from createPickIds_eq[of ?insts "[]" w] c obtain new where
    new: "length new = length (instanceArray gi)"
         "map pid_object new = map pickObject (instanceArray gi)"
         "w1 = w\<lparr> ctx := (ctx w)\<lparr> ctx_pickObjects :=
                      ctx_pickObjects (ctx w) @ map pickObject (instanceArray gi) \<rparr>,
                  prim := (prim w)\<lparr> u_pickIds := u_pickIds (prim w) @ new \<rparr> \<rparr>"
    by (auto simp: comp_def)
  show ?thesis
    apply (rule exI[of _ new])
    using assms c new
    by (auto simp: readyBranch_def scheduleTask_def Let_def)
qed


lemma update_ready:
  assumes "state (prim w) = READY" and "\<not> earlyExit fs (prim w)"
    and "geometryInstances (prim w) = Some gi"
  shows "\<exists>new t. length new = length (instanceArray gi) \<and>
     map pid_object new = map pickObject (instanceArray gi) \<and>
     update fs w =
       (Returned,
        if tp_accepts (taskProcessor w)
        then w\<lparr> ctx := (ctx w)\<lparr> ctx_pickObjects :=
                            ctx_pickObjects (ctx w) @ map pickObject (instanceArray gi) \<rparr>,
                 taskProcessor := (taskProcessor w)\<lparr> tp_scheduled :=
                            tp_scheduled (taskProcessor w) @ [t] \<rparr>,
                 registered := registered w @ [length (tp_scheduled (taskProcessor w))],
                 prim := (prim w)\<lparr> u_pickIds := u_pickIds (prim w) @ new,
                                    state := COMBINING \<rparr> \<rparr>
        else w\<lparr> ctx := (ctx w)\<lparr> ctx_pickObjects :=
                            ctx_pickObjects (ctx w) @ map pickObject (instanceArray gi) \<rparr>,
                 prim := (prim w)\<lparr> u_pickIds := u_pickIds (prim w) @ new \<rparr> \<rparr>)"
proof -
  from readyBranch_eq[OF assms(3), of fs] obtain new t where
    r: "length new = length (instanceArray gi)"
       "map pid_object new = map pickObject (instanceArray gi)"
       "readyBranch fs w =
       (if tp_accepts (taskProcessor w)
        then (Proceed,
              w\<lparr> ctx := (ctx w)\<lparr> ctx_pickObjects :=
                            ctx_pickObjects (ctx w) @ map pickObject (instanceArray gi) \<rparr>,
                 taskProcessor := (taskProcessor w)\<lparr> tp_scheduled :=
                            tp_scheduled (taskProcessor w) @ [t] \<rparr>,
                 registered := registered w @ [length (tp_scheduled (taskProcessor w))],
                 prim := (prim w)\<lparr> u_pickIds := u_pickIds (prim w) @ new,
                                    state := COMBINING \<rparr> \<rparr>)
        else (Exit Returned,
              w\<lparr> ctx := (ctx w)\<lparr> ctx_pickObjects :=
                            ctx_pickObjects (ctx w) @ map pickObject (instanceArray gi) \<rparr>,
                 prim := (prim w)\<lparr> u_pickIds := u_pickIds (prim w) @ new \<rparr> \<rparr>))"
    by blast
  show ?thesis
    apply (rule exI[of _ new])
    apply (rule exI[of _ t])
    using assms(1,2) r by (simp add: update_def)
qed

lemma update_ready_undefined:
  assumes "state (prim w) = READY" and "geometryInstances (prim w) = None"
  shows "snd (update fs w) = w"
  using assms by (simp add: update_def readyBranch_def)

lemma update_idle:
  assumes "state (prim w) = COMBINING \<or> state (prim w) = FAILED"
  shows "update fs w = (Returned, w)"
  using assms by (auto simp: update_def)

section \<open>Declined dispatch\<close>

lemma declined_step:
  assumes "state (prim w) = READY" and "\<not> earlyExit fs (prim w)"
    and "geometryInstances (prim w) = Some gi" and "\<not> tp_accepts (taskProcessor w)"
  shows "state (prim (snd (update fs w))) = READY \<and>
         \<not> earlyExit fs (prim (snd (update fs w))) \<and>
         geometryInstances (prim (snd (update fs w))) = Some gi \<and>
         \<not> tp_accepts (taskProcessor (snd (update fs w))) \<and>
         length (u_pickIds (prim (snd (update fs w)))) =
           length (u_pickIds (prim w)) + length (instanceArray gi)"
proof -
  from update_ready[OF assms(1-3)] assms(4) obtain new where
    "length new = length (instanceArray gi)"
    "update fs w = (Returned,
        w\<lparr> ctx := (ctx w)\<lparr> ctx_pickObjects :=
                     ctx_pickObjects (ctx w) @ map pickObject (instanceArray gi) \<rparr>,
           prim := (prim w)\<lparr> u_pickIds := u_pickIds (prim w) @ new \<rparr> \<rparr>)"
    by auto
  with assms show ?thesis by (simp add: earlyExit_def)
qed

lemma declined_iterate:
  assumes "state (prim w) = READY" and "\<not> earlyExit fs (prim w)"
    and "geometryInstances (prim w) = Some gi" and "\<not> tp_accepts (taskProcessor w)"
  shows "state (prim (((\<lambda>w. snd (update fs w)) ^^ k) w)) = READY \<and>
         \<not> earlyExit fs (prim (((\<lambda>w. snd (update fs w)) ^^ k) w)) \<and>
         geometryInstances (prim (((\<lambda>w. snd (update fs w)) ^^ k) w)) = Some gi \<and>
         \<not> tp_accepts (taskProcessor (((\<lambda>w. snd (update fs w)) ^^ k) w)) \<and>
         length (u_pickIds (prim (((\<lambda>w. snd (update fs w)) ^^ k) w))) =
           length (u_pickIds (prim w)) + k * length (instanceArray gi)"
proof (induction k)
  case 0
  with assms show ?case by simp
next
  case (Suc k)
  let ?wk = "((\<lambda>w. snd (update fs w)) ^^ k) w"
  from Suc have h: "state (prim ?wk) = READY" "\<not> earlyExit fs (prim ?wk)"
    "geometryInstances (prim ?wk) = Some gi" "\<not> tp_accepts (taskProcessor ?wk)"
    "length (u_pickIds (prim ?wk)) = length (u_pickIds (prim w)) + k * length (instanceArray gi)"
    by simp_all
  from declined_step[OF h(1-4)] h(5) show ?case by simp
qed

text \<open>
  C9. When the task processor returns no promise, an update of a READY primitive that
  passes the early-exit test returns normally with the state still READY; nothing is
  recorded except that one new pick id per instance has been created in the context and
  appended to the list of pick ids. The next update does the same again, so after
  \<open>k\<close> declined attempts the list has grown by \<open>k\<close> times the number of instances.
\<close>

theorem declined_dispatch_accumulates_pick_ids:
  assumes "state (prim w) = READY" and "\<not> earlyExit fs (prim w)"
    and "geometryInstances (prim w) = Some gi" and "\<not> tp_accepts (taskProcessor w)"
  shows "(\<exists>new. length new = length (instanceArray gi) \<and>
            map pid_object new = map pickObject (instanceArray gi) \<and>
            update fs w =
              (Returned,
               w\<lparr> ctx := (ctx w)\<lparr> ctx_pickObjects :=
                            ctx_pickObjects (ctx w) @ map pickObject (instanceArray gi) \<rparr>,
                  prim := (prim w)\<lparr> u_pickIds := u_pickIds (prim w) @ new \<rparr> \<rparr>)) \<and>
         state (prim (((\<lambda>w. snd (update fs w)) ^^ k) w)) = READY \<and>
         length (u_pickIds (prim (((\<lambda>w. snd (update fs w)) ^^ k) w))) =
           length (u_pickIds (prim w)) + k * length (instanceArray gi)"
proof -
  from update_ready[OF assms(1-3)] assms(4)
  have "\<exists>new. length new = length (instanceArray gi) \<and>
            map pid_object new = map pickObject (instanceArray gi) \<and>
            update fs w =
              (Returned,
               w\<lparr> ctx := (ctx w)\<lparr> ctx_pickObjects :=
                            ctx_pickObjects (ctx w) @ map pickObject (instanceArray gi) \<rparr>,
                  prim := (prim w)\<lparr> u_pickIds := u_pickIds (prim w) @ new \<rparr> \<rparr>)"
    by auto
  with declined_iterate[OF assms, of k] show ?thesis by blast
qed

lemma exampleWorld_ready:
  "state (prim (exampleWorld b)) = READY"
  "\<not> earlyExit (exampleFrame SCENE3D) (prim (exampleWorld b))"
  "geometryInstances (prim (exampleWorld b)) = Some (Array [exampleInstance ''A'', exampleInstance ''B''])"
  "tp_accepts (taskProcessor (exampleWorld b)) = b"
  "u_pickIds (prim (exampleWorld b)) = []"
  "ctx_pickObjects (ctx (exampleWorld b)) = []"
  by (simp_all add: exampleWorld_def newWorld_def Primitive_def exampleOptions_def earlyExit_def
      exampleFrame_def defaultValue_def exampleContext_def)

theorem declined_dispatch_accumulates_pick_ids_witness:
  "state (prim (exampleWorld False)) = READY \<and>
   \<not> earlyExit (exampleFrame SCENE3D) (prim (exampleWorld False)) \<and>
   geometryInstances (prim (exampleWorld False))
     = Some (Array [exampleInstance ''A'', exampleInstance ''B'']) \<and>
   \<not> tp_accepts (taskProcessor (exampleWorld False)) \<and>
   state (prim (((\<lambda>w. snd (update (exampleFrame SCENE3D) w)) ^^ 3) (exampleWorld False))) = READY \<and>
   length (u_pickIds (prim (((\<lambda>w. snd (update (exampleFrame SCENE3D) w)) ^^ 3) (exampleWorld False)))) = 6"
proof -
  have h: "state (prim (exampleWorld False)) = READY"
    "\<not> earlyExit (exampleFrame SCENE3D) (prim (exampleWorld False))"
    "geometryInstances (prim (exampleWorld False))
       = Some (Array [exampleInstance ''A'', exampleInstance ''B''])"
    "\<not> tp_accepts (taskProcessor (exampleWorld False))"
    by (simp_all add: exampleWorld_ready)
  from declined_dispatch_accumulates_pick_ids[OF h, of 3] h show ?thesis
    by (simp add: exampleWorld_ready instanceArray_def)
qed

section \<open>Resources created before the geometry is combined\<close>

text \<open>
  C2, as the code has it. An update of a primitive that is READY or COMBINING creates no
  vertex buffer, no vertex array, no render state and no shader program, and leaves the
  primitive's vertex arrays, render state and shader programs as they were. Pick
  identifiers are another matter: the READY branch creates one per instance, in the
  context and in the primitive's list, before it dispatches the combine task.
\<close>

theorem update_before_combined_creates_pick_ids_only:
  assumes "state (prim w) = READY \<or> state (prim w) = COMBINING"
  shows "ctx_vertexBuffers (ctx (snd (update fs w))) = ctx_vertexBuffers (ctx w) \<and>
         ctx_vertexArrays (ctx (snd (update fs w))) = ctx_vertexArrays (ctx w) \<and>
         ctx_renderStates (ctx (snd (update fs w))) = ctx_renderStates (ctx w) \<and>
         ctx_shaderPrograms (ctx (snd (update fs w))) = ctx_shaderPrograms (ctx w) \<and>
         u_va (prim (snd (update fs w))) = u_va (prim w) \<and>
         u_rs (prim (snd (update fs w))) = u_rs (prim w) \<and>
         u_sp (prim (snd (update fs w))) = u_sp (prim w) \<and>
         u_pickSP (prim (snd (update fs w))) = u_pickSP (prim w) \<and>
         (state (prim w) = READY \<and> \<not> earlyExit fs (prim w) \<and>
          geometryInstances (prim w) = Some gi \<longrightarrow>
            ctx_pickObjects (ctx (snd (update fs w))) =
              ctx_pickObjects (ctx w) @ map pickObject (instanceArray gi) \<and>
            length (u_pickIds (prim (snd (update fs w)))) =
              length (u_pickIds (prim w)) + length (instanceArray gi))"
proof (cases "earlyExit fs (prim w)")
  case True
  then have "update fs w = (Returned, w)" by (simp add: update_def)
  with True show ?thesis by simp
next
  case False
  show ?thesis
  proof (cases "state (prim w) = READY")
    case notready: False
    with assms have "update fs w = (Returned, w)" by (simp add: update_idle)
    with notready show ?thesis by simp
  next
    case ready: True
    show ?thesis
    proof (cases "geometryInstances (prim w)")
      case None
      with ready have "snd (update fs w) = w" by (rule update_ready_undefined)
      with None show ?thesis by simp
    next
      case (Some gi')
      from update_ready[OF ready False Some] obtain new t where
        "length new = length (instanceArray gi')"
        "update fs w =
       (Returned,
        if tp_accepts (taskProcessor w)
        then w\<lparr> ctx := (ctx w)\<lparr> ctx_pickObjects :=
                            ctx_pickObjects (ctx w) @ map pickObject (instanceArray gi') \<rparr>,
                 taskProcessor := (taskProcessor w)\<lparr> tp_scheduled :=
                            tp_scheduled (taskProcessor w) @ [t] \<rparr>,
                 registered := registered w @ [length (tp_scheduled (taskProcessor w))],
                 prim := (prim w)\<lparr> u_pickIds := u_pickIds (prim w) @ new,
                                    state := COMBINING \<rparr> \<rparr>
        else w\<lparr> ctx := (ctx w)\<lparr> ctx_pickObjects :=
                            ctx_pickObjects (ctx w) @ map pickObject (instanceArray gi') \<rparr>,
                 prim := (prim w)\<lparr> u_pickIds := u_pickIds (prim w) @ new \<rparr> \<rparr>)"
        by blast
      with Some show ?thesis by simp
    qed
  qed
qed

theorem update_before_combined_creates_pick_ids_only_witness:
  "(state (prim (exampleWorld True)) = READY \<or> state (prim (exampleWorld True)) = COMBINING) \<and>
   state (prim (exampleWorld True)) = READY \<and>
   \<not> earlyExit (exampleFrame SCENE3D) (prim (exampleWorld True)) \<and>
   geometryInstances (prim (exampleWorld True))
     = Some (Array [exampleInstance ''A'', exampleInstance ''B'']) \<and>
   ctx_vertexArrays (ctx (snd (update (exampleFrame SCENE3D) (exampleWorld True)))) = [] \<and>
   ctx_shaderPrograms (ctx (snd (update (exampleFrame SCENE3D) (exampleWorld True)))) = [] \<and>
   ctx_pickObjects (ctx (snd (update (exampleFrame SCENE3D) (exampleWorld True))))
     = [OwnerId ''A'', OwnerId ''B'']"
proof -
  have h: "state (prim (exampleWorld True)) = READY"
    "\<not> earlyExit (exampleFrame SCENE3D) (prim (exampleWorld True))"
    "geometryInstances (prim (exampleWorld True))
       = Some (Array [exampleInstance ''A'', exampleInstance ''B''])"
    by (simp_all add: exampleWorld_ready)
  have c: "ctx_vertexArrays (ctx (exampleWorld True)) = []"
          "ctx_shaderPrograms (ctx (exampleWorld True)) = []"
    by (simp_all add: exampleWorld_def newWorld_def exampleContext_def)
  from update_before_combined_creates_pick_ids_only[of "exampleWorld True" "exampleFrame SCENE3D"
      "Array [exampleInstance ''A'', exampleInstance ''B'']"] h c
  show ?thesis
    by (simp add: exampleWorld_ready instanceArray_def pickObject_def exampleInstance_def
        defaultValue_def)
qed

text \<open>The claim C2 as it was stated counts pick identifiers among the GPU resources that
  the READY to COMBINING transition does not create. On the example primitive with two
  instances that transition creates two.\<close>

theorem ready_transition_creates_pick_ids_counterexample:
  "state (prim (exampleWorld True)) = READY \<and>
   state (prim (snd (update (exampleFrame SCENE3D) (exampleWorld True)))) = COMBINING \<and>
   ctx_pickObjects (ctx (exampleWorld True)) = [] \<and>
   u_pickIds (prim (exampleWorld True)) = [] \<and>
   ctx_pickObjects (ctx (snd (update (exampleFrame SCENE3D) (exampleWorld True))))
     = [OwnerId ''A'', OwnerId ''B''] \<and>
   length (u_pickIds (prim (snd (update (exampleFrame SCENE3D) (exampleWorld True))))) = 2"
proof -
  from update_ready[OF exampleWorld_ready(1,2,3), of True] exampleWorld_ready(4)[of True]
  show ?thesis
    by (auto simp: exampleWorld_ready instanceArray_def pickObject_def exampleInstance_def
        defaultValue_def)
qed


section \<open>What the drawing code leaves alone\<close>

lemma createVertexBuffers_prim:
  "prim (createVertexBuffers attributes w) = prim w \<and>
   registered (createVertexBuffers attributes w) = registered w"
  by (induction attributes arbitrary: w) (simp_all add: Let_def split_def)

lemma createVertexArrays_prim:
  "prim (snd (snd (createVertexArrays gs i vas va w))) = prim w \<and>
   registered (snd (snd (createVertexArrays gs i vas va w))) = registered w"
proof (induction gs arbitrary: i va w)
  case Nil
  show ?case by simp
next
  case (Cons g gs)
  show ?case
  proof (cases vas)
    case None
    then show ?thesis by simp
  next
    case (Some vs)
    show ?thesis
    proof (cases "i < length vs")
      case False
      with Some show ?thesis by simp
    next
      case True
      with Some Cons.IH show ?thesis
        by (simp add: Let_def split_def createVertexBuffers_prim)
    qed
  qed
qed

lemma combinedBranch_cases:
  "(\<exists>e. fst (combinedBranch fs w) = Exit (Threw e) \<and>
        lifecycle (snd (combinedBranch fs w)) = lifecycle w) \<or>
   (fst (combinedBranch fs w) = Proceed \<and>
    u_geometries (prim w) \<noteq> None \<and>
    lifecycle (snd (combinedBranch fs w)) =
      (COMPLETE, registered w,
       if u_releaseGeometryInstances (prim w) then None else geometryInstances (prim w),
       u_geometries (prim w), None))"
proof (cases "u_geometries (prim w)")
  case None
  then show ?thesis by (simp add: combinedBranch_def)
next
  case (Some gs)
  show ?thesis
  proof (cases gs)
    case Nil
    with Some show ?thesis by (simp add: combinedBranch_def)
  next
    case (Cons g0 rest)
    let ?p1 = "(prim w)\<lparr> u_boundingSphere := g_boundingSphere g0 \<rparr>"
    let ?p2 = "(case u_boundingSphere ?p1 of
                  Some bs \<Rightarrow> if \<not> u_allow3DOnly ?p1
                     then ?p1\<lparr> u_boundingSphere2D := Some (ProjectTo2D bs (s2d_projection (fs_scene2D fs))) \<rparr>
                     else ?p1
                | None \<Rightarrow> ?p1)"
    have p2: "state ?p2 = state (prim w)" "geometryInstances ?p2 = geometryInstances (prim w)"
      "u_geometries ?p2 = u_geometries (prim w)" "u_geomtries ?p2 = u_geomtries (prim w)"
      "u_releaseGeometryInstances ?p2 = u_releaseGeometryInstances (prim w)"
      by (simp_all split: option.splits)
    obtain e va w1 where r: "createVertexArrays (g0 # rest) 0 (u_vaAttributes ?p2) [] (w\<lparr> prim := ?p2 \<rparr>) = (e, va, w1)"
      by (metis prod_cases3)
    from createVertexArrays_prim[of "g0 # rest" 0 "u_vaAttributes ?p2" "[]" "w\<lparr> prim := ?p2 \<rparr>"] r
    have w1: "prim w1 = ?p2" "registered w1 = registered w" by simp_all
    show ?thesis
    proof (cases e)
      case (Some err)
      with Some r Cons \<open>u_geometries (prim w) = Some gs\<close> w1 p2
      have "fst (combinedBranch fs w) = Exit (Threw err)" "snd (combinedBranch fs w) = w1"
        by (simp_all add: combinedBranch_def Let_def del: createVertexArrays.simps)
      with w1 p2 show ?thesis by (simp add: lifecycle_def)
    next
      case None
      with r Cons \<open>u_geometries (prim w) = Some gs\<close>
      have "fst (combinedBranch fs w) = Proceed"
        and "registered (snd (combinedBranch fs w)) = registered w1"
        and "state (prim (snd (combinedBranch fs w))) = COMPLETE"
        and "u_geomtries (prim (snd (combinedBranch fs w))) = None"
        and "u_geometries (prim (snd (combinedBranch fs w))) = u_geometries ?p2"
        and "geometryInstances (prim (snd (combinedBranch fs w))) =
               (if u_releaseGeometryInstances ?p2 then None else geometryInstances ?p2)"
        by (simp_all add: combinedBranch_def Let_def w1 del: createVertexArrays.simps)
      with w1 p2 \<open>u_geometries (prim w) = Some gs\<close> show ?thesis
        by (simp add: lifecycle_def)
    qed
  qed
qed

lemma createShaderPrograms_lifecycle:
  "lifecycle (snd (createShaderPrograms ap w)) = lifecycle w"
  by (simp add: createShaderPrograms_def lifecycle_def Let_def split_def
      split: sum.splits)

lemma setCommands_lifecycle:
  "lifecycle (snd (setCommands f f' g w)) = lifecycle w"
  by (simp add: setCommands_def lifecycle_def split_def)

lemma refreshAppearance_lifecycle:
  "lifecycle (snd (refreshAppearance w)) = lifecycle w"
proof (cases "appearance (prim w)")
  case None
  then show ?thesis by (simp add: refreshAppearance_def)
next
  case (Some ap)
  let ?createRS = "u_appearance (prim w) \<noteq> Some (ap_ref ap)"
  let ?createSP = "?createRS \<or> u_material (prim w) \<noteq> map_option mat_ref (ap_material ap)"
  let ?p1 = "(if ?createRS
             then (prim w)\<lparr> u_appearance := Some (ap_ref ap),
                            u_material := map_option mat_ref (ap_material ap) \<rparr>
             else if ?createSP then (prim w)\<lparr> u_material := map_option mat_ref (ap_material ap) \<rparr>
             else prim w)"
  let ?w1 = "(if ?createRS
             then (let (rs, c) = createRenderState (ap_renderState ap) (ctx w)
                   in w\<lparr> ctx := c, prim := ?p1\<lparr> u_rs := Some rs \<rparr> \<rparr>)
             else w\<lparr> prim := ?p1 \<rparr>)"
  have w1: "lifecycle ?w1 = lifecycle w"
    by (simp add: lifecycle_def split_def Let_def)
  let ?r = "(if ?createSP then createShaderPrograms ap ?w1 else (None, ?w1))"
  have r: "lifecycle (snd ?r) = lifecycle w"
    using w1 createShaderPrograms_lifecycle[of ap ?w1] by (cases ?createSP) simp_all
  have "refreshAppearance w =
      (case ?r of (Some e, w2) \<Rightarrow> (Some e, w2)
       | (None, w2) \<Rightarrow>
          (if ?createRS \<or> ?createSP then
             (let uniforms = map_option mat_uniforms (ap_material ap);
                  colour = (\<lambda>c. c\<lparr> dc_renderState := u_rs (prim w2),
                                    dc_shaderProgram := u_sp (prim w2),
                                    dc_uniformMap := uniforms \<rparr>);
                  picking = (\<lambda>c. c\<lparr> dc_renderState := u_rs (prim w2),
                                     dc_shaderProgram := u_pickSP (prim w2),
                                     dc_uniformMap := uniforms \<rparr>)
              in setCommands colour colour picking w2)
           else (None, w2)))"
    using Some by (simp add: refreshAppearance_def Let_def)
  then show ?thesis
    using r by (cases ?r; cases "fst ?r") (auto simp: Let_def setCommands_lifecycle)
qed

lemma flushIndices_frame:
  "prim (snd (flushIndices v indices w)) = prim w \<and>
   registered (snd (flushIndices v indices w)) = registered w \<and>
   attributeHeap (snd (flushIndices v indices w)) = attributeHeap w \<and>
   vaAttributeHeap (snd (flushIndices v indices w)) = vaAttributeHeap w"
  by (induction indices arbitrary: w)
     (simp_all add: Let_def split: sum.splits option.splits)

lemma flushAttributes_frame:
  "prim (snd (flushAttributes attributes w)) = prim w \<and>
   registered (snd (flushAttributes attributes w)) = registered w \<and>
   vaAttributeHeap (snd (flushAttributes attributes w)) = vaAttributeHeap w"
proof (induction attributes arbitrary: w)
  case Nil
  show ?case by simp
next
  case (Cons a attributes)
  let ?r = "flushIndices (a_value (attributeHeap w a)) (a_indices (attributeHeap w a)) w"
  show ?case
    using flushIndices_frame[of "a_value (attributeHeap w a)" "a_indices (attributeHeap w a)" w]
      Cons.IH[of "(snd ?r)\<lparr> attributeHeap := (attributeHeap (snd ?r))
                    (a := (attributeHeap (snd ?r) a)\<lparr> a_dirty := False \<rparr>) \<rparr>"]
    by (cases ?r; cases "fst ?r") auto
qed

lemma flushDirtyAttributes_lifecycle:
  "lifecycle (snd (flushDirtyAttributes w)) = lifecycle w"
  using flushAttributes_frame[of "u_dirtyAttributes (prim w)" w]
  by (cases "flushAttributes (u_dirtyAttributes (prim w)) w";
      cases "fst (flushAttributes (u_dirtyAttributes (prim w)) w)")
     (auto simp: flushDirtyAttributes_def lifecycle_def)

lemma emitCommands_lifecycle:
  "lifecycle (snd (emitCommands fs w)) = lifecycle w"
proof -
  let ?r = "setCommands (\<lambda>c. c\<lparr> dc_modelMatrix := Some (modelMatrix (prim w)) \<rparr>)
     (\<lambda>c. c\<lparr> dc_modelMatrix := Some (modelMatrix (prim w)),
              dc_boundingVolume := selectBoundingSphere fs (prim w) \<rparr>)
     (\<lambda>c. c\<lparr> dc_modelMatrix := Some (modelMatrix (prim w)),
              dc_boundingVolume := selectBoundingSphere fs (prim w) \<rparr>) w"
  have "lifecycle (snd ?r) = lifecycle w" by (rule setCommands_lifecycle)
  then show ?thesis
    by (cases ?r; cases "fst ?r") (auto simp: emitCommands_def Let_def lifecycle_def)
qed

lemma completeState_lifecycle:
  "lifecycle (snd (completeState fs w)) = lifecycle w"
proof -
  obtain e1 w1 where r1: "refreshAppearance w = (e1, w1)" by (cases "refreshAppearance w")
  obtain e2 w2 where r2: "flushDirtyAttributes w1 = (e2, w2)" by (cases "flushDirtyAttributes w1")
  from r1 refreshAppearance_lifecycle[of w] have l1: "lifecycle w1 = lifecycle w" by simp
  from r2 flushDirtyAttributes_lifecycle[of w1] l1 have l2: "lifecycle w2 = lifecycle w" by simp
  show ?thesis
    using r1 r2 l1 l2 emitCommands_lifecycle[of fs w2]
    by (cases e1; cases e2) (simp_all add: completeState_def)
qed

lemma update_lifecycle:
  "(state (prim w) = READY \<and>
      (lifecycle (snd (update fs w)) = lifecycle w \<or>
       (\<exists>pr. lifecycle (snd (update fs w)) =
          (COMBINING, registered w @ [pr], geometryInstances (prim w), u_geometries (prim w),
           u_geomtries (prim w))))) \<or>
   (state (prim w) = COMBINED \<and>
      (lifecycle (snd (update fs w)) = lifecycle w \<or>
       (u_geometries (prim w) \<noteq> None \<and>
        lifecycle (snd (update fs w)) =
          (COMPLETE, registered w,
           if u_releaseGeometryInstances (prim w) then None else geometryInstances (prim w),
           u_geometries (prim w), None)))) \<or>
   (state (prim w) \<noteq> READY \<and> state (prim w) \<noteq> COMBINED \<and>
      lifecycle (snd (update fs w)) = lifecycle w)"
proof (cases "earlyExit fs (prim w)")
  case True
  then have "update fs w = (Returned, w)" by (simp add: update_def)
  then show ?thesis by (cases "state (prim w)") simp_all
next
  case False
  show ?thesis
  proof (cases "state (prim w)")
    case READY
    show ?thesis
    proof (cases "geometryInstances (prim w)")
      case None
      with READY have "snd (update fs w) = w" by (rule update_ready_undefined)
      with READY show ?thesis by simp
    next
      case (Some gi)
      from update_ready[OF READY False Some] obtain new t where
        u: "update fs w =
       (Returned,
        if tp_accepts (taskProcessor w)
        then w\<lparr> ctx := (ctx w)\<lparr> ctx_pickObjects :=
                            ctx_pickObjects (ctx w) @ map pickObject (instanceArray gi) \<rparr>,
                 taskProcessor := (taskProcessor w)\<lparr> tp_scheduled :=
                            tp_scheduled (taskProcessor w) @ [t] \<rparr>,
                 registered := registered w @ [length (tp_scheduled (taskProcessor w))],
                 prim := (prim w)\<lparr> u_pickIds := u_pickIds (prim w) @ new,
                                    state := COMBINING \<rparr> \<rparr>
        else w\<lparr> ctx := (ctx w)\<lparr> ctx_pickObjects :=
                            ctx_pickObjects (ctx w) @ map pickObject (instanceArray gi) \<rparr>,
                 prim := (prim w)\<lparr> u_pickIds := u_pickIds (prim w) @ new \<rparr> \<rparr>)"
        by blast
      show ?thesis
      proof (cases "tp_accepts (taskProcessor w)")
        case True
        with u READY show ?thesis by (simp add: lifecycle_def)
      next
        case False
        with u READY show ?thesis by (simp add: lifecycle_def)
      qed
    qed
  next
    case COMBINING
    then have "update fs w = (Returned, w)" by (simp add: update_idle)
    with COMBINING show ?thesis by simp
  next
    case FAILED
    then have "update fs w = (Returned, w)" by (simp add: update_idle)
    with FAILED show ?thesis by simp
  next
    case COMPLETE
    with False have "update fs w = completeState fs w" by (simp add: update_def)
    with COMPLETE show ?thesis by (simp add: completeState_lifecycle)
  next
    case COMBINED
    obtain fl w1 where c: "combinedBranch fs w = (fl, w1)" by (cases "combinedBranch fs w")
    from combinedBranch_cases[of fs w] c
    consider (threw) e where "fl = Exit (Threw e)" "lifecycle w1 = lifecycle w"
      | (built) "fl = Proceed" "u_geometries (prim w) \<noteq> None"
          "lifecycle w1 = (COMPLETE, registered w,
             if u_releaseGeometryInstances (prim w) then None else geometryInstances (prim w),
             u_geometries (prim w), None)"
      by auto
    then show ?thesis
    proof cases
      case threw
      with COMBINED False c have "snd (update fs w) = w1" by (simp add: update_def)
      with threw COMBINED show ?thesis by simp
    next
      case built
      then have "state (prim w1) = COMPLETE" by (simp add: lifecycle_def)
      with built COMBINED False c have "update fs w = completeState fs w1"
        by (simp add: update_def)
      with built COMBINED show ?thesis by (simp add: completeState_lifecycle)
    qed
  qed
qed


section \<open>The state machine\<close>

lemma getGeometryInstanceAttributes_state:
  "state (snd (getGeometryInstanceAttributes ident p)) = state p"
  by (simp add: getGeometryInstanceAttributes_def Let_def split: option.splits)

lemma createSetFunction_state:
  "state (prim (snd (createSetFunction name obj v w))) = state (prim w) \<and>
   registered (snd (createSetFunction name obj v w)) = registered w"
  by (simp add: createSetFunction_def Let_def split: jsvalue.splits option.splits)

text \<open>At most one promise carries the callbacks, and only while the state is COMBINING.\<close>

lemma step_registered:
  assumes "length (registered w) \<le> 1"
    and "registered w \<noteq> [] \<longrightarrow> state (prim w) = COMBINING"
    and "step w e = Some w'"
  shows "length (registered w') \<le> 1 \<and> (registered w' \<noteq> [] \<longrightarrow> state (prim w') = COMBINING)"
proof (cases e)
  case (Update fs)
  with assms(3) have w': "w' = snd (update fs w)" by (simp add: step_def)
  from update_lifecycle[of w fs] assms(1,2) show ?thesis
    unfolding w' lifecycle_def by auto
next
  case (Resolve pr result)
  with assms(3) have "pr \<in> set (registered w)"
    and w': "w' = w\<lparr> registered := removeAll pr (registered w),
                      prim := combineSucceeded result (prim w) \<rparr>"
    by (simp_all add: step_def split: if_splits)
  with assms(1) have "registered w = [pr]" by (cases "registered w") auto
  with w' show ?thesis by simp
next
  case (Reject pr)
  with assms(3) have "pr \<in> set (registered w)"
    and w': "w' = w\<lparr> registered := removeAll pr (registered w),
                      prim := combineFailed (prim w) \<rparr>"
    by (simp_all add: step_def split: if_splits)
  with assms(1) have "registered w = [pr]" by (cases "registered w") auto
  with w' show ?thesis by simp
next
  case (GetAttributes ident)
  with assms show ?thesis
    by (auto simp: step_def getGeometryInstanceAttributes_state)
next
  case (SetAttribute name obj v)
  with assms show ?thesis
    by (auto simp: step_def createSetFunction_state)
qed (use assms in \<open>auto simp: step_def\<close>)

lemma run_registered:
  assumes "run w es = Some w'"
    and "length (registered w) \<le> 1"
    and "registered w \<noteq> [] \<longrightarrow> state (prim w) = COMBINING"
  shows "length (registered w') \<le> 1 \<and> (registered w' \<noteq> [] \<longrightarrow> state (prim w') = COMBINING)"
  using assms
proof (induction es arbitrary: w)
  case Nil
  then show ?case by simp
next
  case (Cons e es)
  from Cons.prems(1) obtain w1 where s: "step w e = Some w1" and r: "run w1 es = Some w'"
    by (auto split: option.splits)
  from step_registered[OF Cons.prems(2,3) s] Cons.IH[OF r] show ?case by blast
qed

text \<open>
  C1. Let \<open>w\<close> be any world reached from a freshly constructed primitive by updates,
  settlements of the combine promise, attribute lookups and assignments (with the caller
  assigning public fields and the task processor changing its mind in between), and let
  one more such event lead to \<open>w'\<close>. Then the state is unchanged or has moved along one of
  the four edges, each taken by the operation named: READY to COMBINING and COMBINED to
  COMPLETE by update, COMBINING to COMBINED by the success callback, COMBINING to FAILED
  by the failure callback; the callbacks run only in state COMBINING. Nothing leaves
  FAILED, and in state FAILED every update returns normally and leaves the primitive, the
  context, the heaps and the command list exactly as they were.
\<close>

theorem state_machine:
  assumes "run (newWorld c tp ah vh opts cl) es = Some w" and "step w e = Some w'"
  shows "(state (prim w') = state (prim w) \<or>
          (state (prim w) = READY \<and> state (prim w') = COMBINING \<and> (\<exists>fs. e = Update fs)) \<or>
          (state (prim w) = COMBINING \<and> state (prim w') = COMBINED \<and> (\<exists>pr r. e = Resolve pr r)) \<or>
          (state (prim w) = COMBINING \<and> state (prim w') = FAILED \<and> (\<exists>pr. e = Reject pr)) \<or>
          (state (prim w) = COMBINED \<and> state (prim w') = COMPLETE \<and> (\<exists>fs. e = Update fs))) \<and>
         ((\<exists>pr r. e = Resolve pr r) \<longrightarrow>
            state (prim w) = COMBINING \<and> state (prim w') = COMBINED) \<and>
         ((\<exists>pr. e = Reject pr) \<longrightarrow>
            state (prim w) = COMBINING \<and> state (prim w') = FAILED) \<and>
         (state (prim w) = FAILED \<longrightarrow>
            state (prim w') = FAILED \<and> (\<forall>fs. update fs w = (Returned, w)))"
proof -
  have "length (registered (newWorld c tp ah vh opts cl)) \<le> 1"
    and "registered (newWorld c tp ah vh opts cl) \<noteq> [] \<longrightarrow>
         state (prim (newWorld c tp ah vh opts cl)) = COMBINING"
    by (simp_all add: newWorld_def)
  from run_registered[OF assms(1) this]
  have inv: "registered w \<noteq> [] \<longrightarrow> state (prim w) = COMBINING" by blast
  have idle: "state (prim w) = FAILED \<longrightarrow> (\<forall>fs. update fs w = (Returned, w))"
    by (simp add: update_idle)
  show ?thesis
  proof (cases e)
    case (Update fs)
    with assms(2) have w': "w' = snd (update fs w)" by (simp add: step_def)
    from update_lifecycle[of w fs] idle Update show ?thesis
      unfolding w' lifecycle_def by auto
  next
    case (Resolve pr result)
    with assms(2) have "pr \<in> set (registered w)"
      and w': "state (prim w') = COMBINED"
      by (auto simp: step_def combineSucceeded_def split: if_splits)
    with inv have "state (prim w) = COMBINING" by auto
    with w' Resolve show ?thesis by simp
  next
    case (Reject pr)
    with assms(2) have "pr \<in> set (registered w)"
      and w': "state (prim w') = FAILED"
      by (auto simp: step_def combineFailed_def split: if_splits)
    with inv have "state (prim w) = COMBINING" by auto
    with w' Reject show ?thesis by simp
  next
    case (GetAttributes ident)
    with assms(2) have "state (prim w') = state (prim w)"
      by (auto simp: step_def getGeometryInstanceAttributes_state)
    with idle GetAttributes show ?thesis by simp
  next
    case (SetAttribute name obj v)
    with assms(2) have "state (prim w') = state (prim w)"
      by (auto simp: step_def createSetFunction_state)
    with idle SetAttribute show ?thesis by simp
  next
    case (AssignShow b)
    with assms(2) have "state (prim w') = state (prim w)" by (auto simp: step_def)
    with idle AssignShow show ?thesis by simp
  next
    case (AssignAppearance a)
    with assms(2) have "state (prim w') = state (prim w)" by (auto simp: step_def)
    with idle AssignAppearance show ?thesis by simp
  next
    case (AssignGeometryInstances gi)
    with assms(2) have "state (prim w') = state (prim w)" by (auto simp: step_def)
    with idle AssignGeometryInstances show ?thesis by simp
  next
    case (AssignModelMatrix m)
    with assms(2) have "state (prim w') = state (prim w)" by (auto simp: step_def)
    with idle AssignModelMatrix show ?thesis by simp
  next
    case (Scheduler b)
    with assms(2) have "state (prim w') = state (prim w)" by (auto simp: step_def)
    with idle Scheduler show ?thesis by simp
  qed
qed

lemma exampleCombining_facts:
  "state (prim exampleCombining) = COMBINING"
  "registered exampleCombining = [0]"
proof -
  from update_ready[OF exampleWorld_ready(1,2,3), of True] exampleWorld_ready(4)[of True]
  show "state (prim exampleCombining) = COMBINING" "registered exampleCombining = [0]"
    by (auto simp: exampleCombining_def exampleWorld_def newWorld_def)
qed

theorem state_machine_witness:
  "run (newWorld exampleContext \<lparr> tp_accepts = True, tp_scheduled = [] \<rparr>
          exampleAttributeHeap exampleVaAttributeHeap exampleOptions [])
       [Update (exampleFrame SCENE3D)] = Some exampleCombining \<and>
   step exampleCombining (Reject 0) = Some exampleFailed \<and>
   state (prim exampleCombining) = COMBINING \<and> state (prim exampleFailed) = FAILED \<and>
   run (newWorld exampleContext \<lparr> tp_accepts = True, tp_scheduled = [] \<rparr>
          exampleAttributeHeap exampleVaAttributeHeap exampleOptions [])
       [Update (exampleFrame SCENE3D), Reject 0] = Some exampleFailed \<and>
   step exampleFailed (Update (exampleFrame COLUMBUS_VIEW)) = Some exampleFailed \<and>
   update (exampleFrame COLUMBUS_VIEW) exampleFailed = (Returned, exampleFailed)"
proof -
  let ?w0 = "newWorld exampleContext \<lparr> tp_accepts = True, tp_scheduled = [] \<rparr>
          exampleAttributeHeap exampleVaAttributeHeap exampleOptions []"
  have s0: "step ?w0 (Update (exampleFrame SCENE3D)) = Some exampleCombining"
    by (simp add: step_def exampleCombining_def exampleWorld_def)
  have r1: "run ?w0 [Update (exampleFrame SCENE3D)] = Some exampleCombining"
    by (simp add: s0)
  have s1: "step exampleCombining (Reject 0) = Some exampleFailed"
    by (simp add: step_def exampleCombining_facts exampleFailed_def)
  have r2: "run ?w0 [Update (exampleFrame SCENE3D), Reject 0] = Some exampleFailed"
    by (simp add: s0 s1)
  have f: "state (prim exampleFailed) = FAILED"
    by (simp add: exampleFailed_def combineFailed_def)
  from state_machine[OF r2, of "Update (exampleFrame COLUMBUS_VIEW)"
      "snd (update (exampleFrame COLUMBUS_VIEW) exampleFailed)"] f
  have u: "update (exampleFrame COLUMBUS_VIEW) exampleFailed = (Returned, exampleFailed)"
    by (simp add: step_def)
  then have s2: "step exampleFailed (Update (exampleFrame COLUMBUS_VIEW)) = Some exampleFailed"
    by (simp add: step_def)
  from state_machine[OF r1 s1] r1 s1 r2 s2 u f show ?thesis
    by (simp add: exampleCombining_facts)
qed

section \<open>The geometry fields after the COMBINED branch\<close>

text \<open>
  C10. When an update takes a COMBINED primitive to COMPLETE, the field
  \<open>u_geometries\<close> still holds the combined geometries afterwards: the branch writes
  \<^verbatim>\<open>undefined\<close> to the other field \<open>u_geomtries\<close>. This is so whether or not the
  instances are released; of the two, only \<open>geometryInstances\<close> is cleared, and only
  when releaseGeometryInstances is set.
\<close>

theorem geometries_kept_after_complete:
  assumes "state (prim w) = COMBINED" and "state (prim (snd (update fs w))) = COMPLETE"
  shows "u_geometries (prim (snd (update fs w))) = u_geometries (prim w) \<and>
         u_geometries (prim (snd (update fs w))) \<noteq> None \<and>
         u_geomtries (prim (snd (update fs w))) = None \<and>
         geometryInstances (prim (snd (update fs w))) =
           (if u_releaseGeometryInstances (prim w) then None else geometryInstances (prim w))"
  using update_lifecycle[of w fs] assms unfolding lifecycle_def by auto

theorem geometries_kept_after_complete_witness:
  "state (prim exampleCombined) = COMBINED \<and>
   state (prim (snd (update (exampleFrame SCENE3D) exampleCombined))) = COMPLETE \<and>
   u_releaseGeometryInstances (prim exampleCombined) \<and>
   u_geometries (prim (snd (update (exampleFrame SCENE3D) exampleCombined))) = Some [exampleGeometry] \<and>
   geometryInstances (prim (snd (update (exampleFrame SCENE3D) exampleCombined))) = None"
proof -
  have s: "state (prim exampleCombined) = COMBINED"
    by (simp add: exampleCombined_def combineSucceeded_def)
  have c: "state (prim (snd (update (exampleFrame SCENE3D) exampleCombined))) = COMPLETE"
    by code_simp
  have r: "u_releaseGeometryInstances (prim exampleCombined)"
    by code_simp
  have g: "u_geometries (prim exampleCombined) = Some [exampleGeometry]"
    by (simp add: exampleCombined_def combineSucceeded_def exampleResult_def)
  from geometries_kept_after_complete[OF s c] s c r g show ?thesis by simp
qed


section \<open>The flush of the dirty queue\<close>


















section \<open>Coalescing of assignments\<close>










section \<open>Lookup before the combine result\<close>

lemma step_before_result:
  assumes "state (prim w) = READY \<or> state (prim w) = COMBINING \<or> state (prim w) = FAILED"
    and "u_perInstanceAttributes (prim w) = Some \<lparr> pia_ids = None, pia_indices = None \<rparr>"
    and "step w e = Some w'"
    and "case e of Resolve pr r \<Rightarrow> False | _ \<Rightarrow> True"
  shows "(state (prim w') = READY \<or> state (prim w') = COMBINING \<or> state (prim w') = FAILED) \<and>
         u_perInstanceAttributes (prim w') = Some \<lparr> pia_ids = None, pia_indices = None \<rparr>"
proof (cases e)
  case (Update fs)
  with assms(3) have w': "w' = snd (update fs w)" by (simp add: step_def)
  show ?thesis
  proof (cases "earlyExit fs (prim w)")
    case True
    then have "update fs w = (Returned, w)" by (simp add: update_def)
    with w' assms(1,2) show ?thesis by simp
  next
    case False
    show ?thesis
    proof (cases "state (prim w) = READY")
      case notready: False
      with assms(1) have "update fs w = (Returned, w)" by (simp add: update_idle)
      with w' assms(1,2) show ?thesis by simp
    next
      case ready: True
      show ?thesis
      proof (cases "geometryInstances (prim w)")
        case None
        with ready have "snd (update fs w) = w" by (rule update_ready_undefined)
        with w' assms(1,2) show ?thesis by simp
      next
        case (Some gi)
        from update_ready[OF ready False Some] obtain new t where
          "update fs w =
       (Returned,
        if tp_accepts (taskProcessor w)
        then w\<lparr> ctx := (ctx w)\<lparr> ctx_pickObjects :=
                            ctx_pickObjects (ctx w) @ map pickObject (instanceArray gi) \<rparr>,
                 taskProcessor := (taskProcessor w)\<lparr> tp_scheduled :=
                            tp_scheduled (taskProcessor w) @ [t] \<rparr>,
                 registered := registered w @ [length (tp_scheduled (taskProcessor w))],
                 prim := (prim w)\<lparr> u_pickIds := u_pickIds (prim w) @ new,
                                    state := COMBINING \<rparr> \<rparr>
        else w\<lparr> ctx := (ctx w)\<lparr> ctx_pickObjects :=
                            ctx_pickObjects (ctx w) @ map pickObject (instanceArray gi) \<rparr>,
                 prim := (prim w)\<lparr> u_pickIds := u_pickIds (prim w) @ new \<rparr> \<rparr>)"
          by blast
        with w' assms(1,2) ready show ?thesis by simp
      qed
    qed
  qed
next
  case (Resolve pr r)
  with assms(4) show ?thesis by simp
next
  case (Reject pr)
  with assms(2,3) show ?thesis
    by (auto simp: step_def combineFailed_def split: if_splits)
next
  case (GetAttributes ident)
  with assms(1,2,3) show ?thesis
    by (auto simp: step_def getGeometryInstanceAttributes_def split: option.splits)
next
  case (SetAttribute name obj v)
  with assms(1,2,3) show ?thesis
    by (auto simp: step_def createSetFunction_def Let_def split: jsvalue.splits option.splits if_splits)
qed (use assms in \<open>auto simp: step_def\<close>)

lemma run_before_result:
  assumes "run w es = Some w'"
    and "list_all (\<lambda>e. case e of Resolve pr r \<Rightarrow> False | _ \<Rightarrow> True) es"
    and "state (prim w) = READY \<or> state (prim w) = COMBINING \<or> state (prim w) = FAILED"
    and "u_perInstanceAttributes (prim w) = Some \<lparr> pia_ids = None, pia_indices = None \<rparr>"
  shows "u_perInstanceAttributes (prim w') = Some \<lparr> pia_ids = None, pia_indices = None \<rparr>"
  using assms
proof (induction es arbitrary: w)
  case Nil
  then show ?case by simp
next
  case (Cons e es)
  from Cons.prems(1) obtain w1 where s: "step w e = Some w1" and r: "run w1 es = Some w'"
    by (auto split: option.splits)
  from Cons.prems(2) have e: "case e of Resolve pr r \<Rightarrow> False | _ \<Rightarrow> True"
    and es: "list_all (\<lambda>e. case e of Resolve pr r \<Rightarrow> False | _ \<Rightarrow> True) es"
    by simp_all
  from step_before_result[OF Cons.prems(3,4) s e] Cons.IH[OF r es] show ?case by blast
qed

text \<open>
  C3. The claim: on a primitive that has not yet received a combine result, calling
  getGeometryInstanceAttributes with a defined id fails with the DeveloperError of the
  documented precondition. The code does not: the constructor initialises the table to an
  empty object, not to \<^verbatim>\<open>undefined\<close>, so the precondition check passes and reading
  the length of the missing \<^verbatim>\<open>ids\<close> array is a TypeError. This is what happens in
  every world reached from a freshly constructed primitive by events among which the
  success callback of the combine promise has not run, for every defined id.
\<close>

theorem lookup_before_combine_TypeError:
  assumes "run (newWorld c tp ah vh opts cl) es = Some w"
    and "list_all (\<lambda>e. case e of Resolve pr r \<Rightarrow> False | _ \<Rightarrow> True) es"
  shows "getGeometryInstanceAttributes (Some ident) (prim w) = (Inl TypeError, prim w)"
proof -
  have "state (prim (newWorld c tp ah vh opts cl)) = READY \<or>
        state (prim (newWorld c tp ah vh opts cl)) = COMBINING \<or>
        state (prim (newWorld c tp ah vh opts cl)) = FAILED"
    and "u_perInstanceAttributes (prim (newWorld c tp ah vh opts cl)) =
           Some \<lparr> pia_ids = None, pia_indices = None \<rparr>"
    by (simp_all add: newWorld_def Primitive_def)
  from run_before_result[OF assms this]
  show ?thesis by (simp add: getGeometryInstanceAttributes_def)
qed

theorem lookup_before_combine_TypeError_witness:
  "run (newWorld exampleContext \<lparr> tp_accepts = True, tp_scheduled = [] \<rparr>
          exampleAttributeHeap exampleVaAttributeHeap exampleOptions [])
       [Update (exampleFrame SCENE3D), Reject 0] = Some exampleFailed \<and>
   list_all (\<lambda>e. case e of Resolve pr r \<Rightarrow> False | _ \<Rightarrow> True)
       [Update (exampleFrame SCENE3D), Reject 0] \<and>
   getGeometryInstanceAttributes (Some ''A'') (prim exampleFailed)
     = (Inl TypeError, prim exampleFailed) \<and>
   getGeometryInstanceAttributes (Some ''A'') (Primitive exampleOptions)
     = (Inl TypeError, Primitive exampleOptions)"
proof -
  let ?w0 = "newWorld exampleContext \<lparr> tp_accepts = True, tp_scheduled = [] \<rparr>
          exampleAttributeHeap exampleVaAttributeHeap exampleOptions []"
  have s0: "step ?w0 (Update (exampleFrame SCENE3D)) = Some exampleCombining"
    by (simp add: step_def exampleCombining_def exampleWorld_def)
  have s1: "step exampleCombining (Reject 0) = Some exampleFailed"
    by (simp add: step_def exampleCombining_facts exampleFailed_def)
  have r2: "run ?w0 [Update (exampleFrame SCENE3D), Reject 0] = Some exampleFailed"
    by (simp add: s0 s1)
  have l2: "list_all (\<lambda>e. case e of Resolve pr r \<Rightarrow> False | _ \<Rightarrow> True)
       [Update (exampleFrame SCENE3D), Reject 0]"
    by simp
  have r0: "run ?w0 [] = Some ?w0" by simp
  have l0: "list_all (\<lambda>e. case e of Resolve pr r \<Rightarrow> False | _ \<Rightarrow> True) []" by simp
  from lookup_before_combine_TypeError[OF r2 l2, of "''A''"]
       lookup_before_combine_TypeError[OF r0 l0, of "''A''"] r2 l2
  show ?thesis by (simp add: newWorld_def)
qed

end
